theory Spec2Isabelle
  imports Main "HOL-Library.Word" "HOL-Library.AList"
begin

unbundle bit_operations_syntax

section \<open>GrainFS: bytes, errors and the library the code calls\<close>

type_synonym byte = "8 word"
type_synonym bytes = "byte list"

text \<open>
  Go errors are values. \<open>Errorf msg\<close> is \<open>fmt.Errorf(msg)\<close> without a wrapped cause,
  \<open>Wrap msg e\<close> is \<open>fmt.Errorf(msg + ": %w", e)\<close>. The sentinels \<open>io.EOF\<close>,
  \<open>io.ErrUnexpectedEOF\<close>, \<open>os.ErrClosed\<close> and \<open>os.ErrNotExist\<close> are constructors of
  their own, because the code compares against them with \<open>==\<close> and \<open>os.IsNotExist\<close>,
  neither of which looks through a \<open>%w\<close> wrapper. \<open>OutOfFuel\<close> is not a Go error:
  it is the value of a recursion of the embedding that was given too small a bound.
\<close>

datatype error =
    EOF
  | ErrUnexpectedEOF
  | ErrClosed
  | ErrNotExist
  | Errorf string
  | Wrap string error
  | OutOfFuel

definition IsNotExist :: "error \<Rightarrow> bool" where
  "IsNotExist e = (e = ErrNotExist)"

text \<open>\<open>[]byte(s)\<close> for a Go string \<open>s\<close>.\<close>

definition bytes_of :: "string \<Rightarrow> bytes" where
  "bytes_of s = map (\<lambda>c. word_of_nat (of_char c)) s"

text \<open>
  The Go standard library and \<open>x/crypto\<close> are not part of the repository. The code is
  embedded over a record of the primitives it calls; \<open>lib_ok\<close> states the part of their
  contract that the properties below rely on.
\<close>

record Config =
  Salt :: bytes
  Iterations :: int
  Version :: string

record lib =
  sha256_Sum :: "bytes \<Rightarrow> bytes"
  hmac_sha256 :: "bytes \<Rightarrow> bytes \<Rightarrow> bytes"
  aes_ctr_stream :: "bytes \<Rightarrow> bytes \<Rightarrow> nat \<Rightarrow> byte"
  gcm_Seal :: "bytes \<Rightarrow> bytes \<Rightarrow> bytes \<Rightarrow> bytes"
  gcm_Open :: "bytes \<Rightarrow> bytes \<Rightarrow> bytes \<Rightarrow> bytes option"
  pbkdf2_Key :: "bytes \<Rightarrow> bytes \<Rightarrow> int \<Rightarrow> nat \<Rightarrow> bytes"
  json_Marshal :: "(string \<rightharpoonup> string) \<Rightarrow> bytes"
  json_Unmarshal :: "bytes \<Rightarrow> (string \<rightharpoonup> string) option"
  json_Encode :: "Config \<Rightarrow> bytes"
  json_Decode :: "bytes \<Rightarrow> Config option"

definition lib_ok :: "lib \<Rightarrow> bool" where
  "lib_ok L \<longleftrightarrow>
     (\<forall>x. length (sha256_Sum L x) = 32) \<and>
     (\<forall>k x. length (hmac_sha256 L k x) = 32) \<and>
     (\<forall>k n p. gcm_Open L k n (gcm_Seal L k n p) = Some p) \<and>
     (\<forall>k n p. length (gcm_Seal L k n p) = length p + 16) \<and>
     (\<forall>k n c. length c < 16 \<longrightarrow> gcm_Open L k n c = None) \<and>
     (\<forall>p s i n. length (pbkdf2_Key L p s i n) = n)"

text \<open>\<open>crypto/rand\<close>: a source of bytes and how far it has been read.\<close>

record rng =
  rng_src :: "nat \<Rightarrow> byte"
  rng_pos :: nat

definition rand_Read :: "rng \<Rightarrow> nat \<Rightarrow> bytes \<times> rng" where
  "rand_Read g n = (map (rng_src g) [rng_pos g ..< rng_pos g + n], g\<lparr>rng_pos := rng_pos g + n\<rparr>)"

text \<open>\<open>aes.NewCipher\<close> accepts keys of 16, 24 or 32 bytes only.\<close>

definition aes_NewCipher :: "bytes \<Rightarrow> error + bytes" where
  "aes_NewCipher key =
     (if length key = 16 \<or> length key = 24 \<or> length key = 32 then Inr key
      else Inl (Errorf ''crypto/aes: invalid key size''))"

text \<open>\<open>stream.XORKeyStream(dst, src)\<close> with \<open>dst\<close> made of \<open>len(src)\<close> bytes.\<close>

definition XORKeyStream :: "(nat \<Rightarrow> byte) \<Rightarrow> bytes \<Rightarrow> bytes" where
  "XORKeyStream ks p = map (\<lambda>(i, b). b XOR ks i) (zip [0 ..< length p] p)"

subsection \<open>\<open>base64.URLEncoding\<close> (with padding) and \<open>%d\<close>\<close>

definition encodeURL :: string where
  "encodeURL = ''ABCDEFGHIJKLMNOPQRSTUVWXYZabcdefghijklmnopqrstuvwxyz0123456789-_''"

definition b64char :: "nat \<Rightarrow> char" where
  "b64char n = encodeURL ! (n mod 64)"

fun EncodeToString :: "bytes \<Rightarrow> string" where
  "EncodeToString [] = []"
| "EncodeToString [a] =
     (let n = unat a * 65536
      in [b64char (n div 262144), b64char (n div 4096), CHR ''='', CHR ''=''])"
| "EncodeToString [a, b] =
     (let n = unat a * 65536 + unat b * 256
      in [b64char (n div 262144), b64char (n div 4096), b64char (n div 64), CHR ''=''])"
| "EncodeToString (a # b # c # rest) =
     (let n = unat a * 65536 + unat b * 256 + unat c
      in [b64char (n div 262144), b64char (n div 4096), b64char (n div 64), b64char n]
         @ EncodeToString rest)"

definition digit_char :: "nat \<Rightarrow> char" where
  "digit_char d = ''0123456789'' ! (d mod 10)"

fun itoa :: "nat \<Rightarrow> string" where
  "itoa n = (if n < 10 then [digit_char n] else itoa (n div 10) @ [digit_char n])"

section \<open>Crypto primitives of the repository\<close>

definition NonceSize :: nat where "NonceSize = 12"
definition TagSize :: nat where "TagSize = 16"
definition HMACSize :: nat where "HMACSize = 32"
definition MaxFilenameLen :: nat where "MaxFilenameLen = 200"
definition aes_BlockSize :: nat where "aes_BlockSize = 16"

definition encryptData :: "lib \<Rightarrow> rng \<Rightarrow> bytes \<Rightarrow> bytes \<Rightarrow> error + (bytes \<times> rng)" where
  "encryptData L g key plaintext =
     (case aes_NewCipher key of
        Inl e \<Rightarrow> Inl (Wrap ''failed to create cipher'' e)
      | Inr block \<Rightarrow>
          (let (nonce, g') = rand_Read g NonceSize;
               ciphertext = gcm_Seal L block nonce plaintext
           in Inr (nonce @ ciphertext, g')))"

definition decryptData :: "lib \<Rightarrow> bytes \<Rightarrow> bytes \<Rightarrow> error + bytes" where
  "decryptData L key ciphertext =
     (if length ciphertext < NonceSize + TagSize then Inl (Errorf ''ciphertext too short'')
      else case aes_NewCipher key of
        Inl e \<Rightarrow> Inl (Wrap ''failed to create cipher'' e)
      | Inr block \<Rightarrow>
          (let nonce = take NonceSize ciphertext;
               encrypted = drop NonceSize ciphertext
           in case gcm_Open L block nonce encrypted of
                None \<Rightarrow> Inl (Wrap ''failed to decrypt'' (Errorf ''cipher: message authentication failed''))
              | Some plaintext \<Rightarrow> Inr plaintext))"

text \<open>The package-level \<open>obfuscateFilename(filenameKey, filename)\<close>.\<close>

definition obfuscateFilename :: "lib \<Rightarrow> bytes \<Rightarrow> string \<Rightarrow> error + string" where
  "obfuscateFilename L filenameKey filename =
     (if filename = [] then Inl (Errorf ''filename cannot be empty'')
      else
        let hash = sha256_Sum L (filenameKey @ bytes_of filename);
            iv = take aes_BlockSize hash
        in case aes_NewCipher filenameKey of
             Inl e \<Rightarrow> Inl (Wrap ''failed to create cipher'' e)
           | Inr block \<Rightarrow>
               (let plaintext = bytes_of filename;
                    ciphertext = XORKeyStream (aes_ctr_stream L block iv) plaintext;
                    mac = hmac_sha256 L filenameKey (iv @ ciphertext);
                    combined = iv @ ciphertext @ mac;
                    encoded = EncodeToString combined
                in if length encoded > MaxFilenameLen
                   then Inl (Errorf ''obfuscated filename too long'')
                   else Inr encoded))"

text \<open>The value of \<open>encoded\<close> in \<open>obfuscateFilename\<close>, for a key that the cipher accepts.\<close>

definition encoded_token :: "lib \<Rightarrow> bytes \<Rightarrow> string \<Rightarrow> string" where
  "encoded_token L fkey filename =
     (let iv = take aes_BlockSize (sha256_Sum L (fkey @ bytes_of filename));
          ciphertext = XORKeyStream (aes_ctr_stream L fkey iv) (bytes_of filename);
          mac = hmac_sha256 L fkey (iv @ ciphertext)
      in EncodeToString (iv @ ciphertext @ mac))"

section \<open>Paths: \<open>strings.Split\<close> and \<open>path/filepath\<close> on a Unix system\<close>

fun Split :: "string \<Rightarrow> string list" where
  "Split [] = [[]]"
| "Split (c # cs) =
     (if c = CHR ''/'' then [] # Split cs
      else case Split cs of [] \<Rightarrow> [[c]] | w # ws \<Rightarrow> (c # w) # ws)"

fun join_sep :: "string list \<Rightarrow> string" where
  "join_sep [] = []"
| "join_sep [x] = x"
| "join_sep (x # y # ys) = x @ CHR ''/'' # join_sep (y # ys)"

text \<open>
  The elements \<open>Clean\<close> keeps, in order: empty and \<open>.\<close> elements go, \<open>..\<close> removes the
  element before it, is dropped at the root of a rooted path and is kept at the
  start of a relative one.
\<close>

fun clean_elems :: "bool \<Rightarrow> string list \<Rightarrow> string list \<Rightarrow> string list" where
  "clean_elems rooted acc [] = acc"
| "clean_elems rooted acc (c # cs) =
     (if c = [] \<or> c = ''.'' then clean_elems rooted acc cs
      else if c = ''..'' then
        (if acc \<noteq> [] \<and> last acc \<noteq> ''..'' then clean_elems rooted (butlast acc) cs
         else if rooted then clean_elems rooted acc cs
         else clean_elems rooted (acc @ [c]) cs)
      else clean_elems rooted (acc @ [c]) cs)"

definition Clean :: "string \<Rightarrow> string" where
  "Clean path =
     (if path = [] then ''.''
      else
        let rooted = (hd path = CHR ''/'');
            out = (if rooted then ''/'' else []) @ join_sep (clean_elems rooted [] (Split path))
        in if out = [] then ''.'' else out)"

definition Join :: "string list \<Rightarrow> string" where
  "Join elem =
     (case dropWhile (\<lambda>e. e = []) elem of
        [] \<Rightarrow> []
      | e # es \<Rightarrow> Clean (join_sep (e # es)))"

definition Dir :: "string \<Rightarrow> string" where
  "Dir path = Clean (rev (dropWhile (\<lambda>c. c \<noteq> CHR ''/'') (rev path)))"

definition Base :: "string \<Rightarrow> string" where
  "Base path =
     (if path = [] then ''.''
      else
        let stripped = rev (dropWhile (\<lambda>c. c = CHR ''/'') (rev path));
            b = rev (takeWhile (\<lambda>c. c \<noteq> CHR ''/'') (rev stripped))
        in if b = [] then ''/'' else b)"

definition HasPrefix :: "string \<Rightarrow> string \<Rightarrow> bool" where
  "HasPrefix s prefix = (take (length prefix) s = prefix)"

section \<open>The backend: an in-memory \<open>billy.Filesystem\<close>\<close>

text \<open>
  The backend is an external collaborator; the tests of the repository run over the
  in-memory one. It is modelled as an association list from cleaned paths to nodes, the
  root \<open>.\<close> being a directory that is always there. Creating a node creates the missing
  directories above it. A handle names its node by path and carries its own position.
\<close>

type_synonym flags = "64 word"

definition O_RDONLY :: flags where "O_RDONLY = 0"
definition O_WRONLY :: flags where "O_WRONLY = 1"
definition O_RDWR :: flags where "O_RDWR = 2"
definition O_CREATE :: flags where "O_CREATE = 64"
definition O_TRUNC :: flags where "O_TRUNC = 512"

datatype bnode = BFile bytes | BDir

type_synonym backend = "(string \<times> bnode) list"

record bfile =
  bname :: string
  bpos :: nat
  bclosed :: bool

record FileInfo =
  fi_Name :: string
  fi_Size :: nat
  fi_IsDir :: bool

definition bk_get :: "backend \<Rightarrow> string \<Rightarrow> bnode option" where
  "bk_get bk path = (let k = Clean path in if k = ''.'' then Some BDir else map_of bk k)"

definition ancestors :: "string \<Rightarrow> string list" where
  "ancestors k = (let es = Split k in map (\<lambda>i. join_sep (take i es)) [1 ..< length es])"

definition is_file :: "bnode option \<Rightarrow> bool" where
  "is_file n = (case n of Some (BFile c) \<Rightarrow> True | _ \<Rightarrow> False)"

definition bk_createParent :: "backend \<Rightarrow> string \<Rightarrow> error + backend" where
  "bk_createParent bk k =
     (if \<exists>a \<in> set (ancestors k). is_file (map_of bk a)
      then Inl (Errorf ''file already exists'')
      else Inr (fold (\<lambda>a b. if map_of b a = None then b @ [(a, BDir)] else b) (ancestors k) bk))"

definition bk_content :: "backend \<Rightarrow> string \<Rightarrow> bytes" where
  "bk_content bk k = (case map_of bk k of Some (BFile c) \<Rightarrow> c | _ \<Rightarrow> [])"

definition bk_OpenFile :: "backend \<Rightarrow> string \<Rightarrow> flags \<Rightarrow> error + (bfile \<times> backend)" where
  "bk_OpenFile bk path flag =
     (let k = Clean path; h = \<lparr>bname = k, bpos = 0, bclosed = False\<rparr>
      in case bk_get bk k of
           None \<Rightarrow>
             (if flag AND O_CREATE = 0 then Inl ErrNotExist
              else case bk_createParent bk k of
                     Inl e \<Rightarrow> Inl e
                   | Inr bk' \<Rightarrow> Inr (h, bk' @ [(k, BFile [])]))
         | Some BDir \<Rightarrow> Inl (Errorf ''cannot open directory'')
         | Some (BFile c) \<Rightarrow>
             Inr (h, if flag AND O_TRUNC \<noteq> 0 then AList.update k (BFile []) bk else bk))"

definition bk_Open :: "backend \<Rightarrow> string \<Rightarrow> error + (bfile \<times> backend)" where
  "bk_Open bk path = bk_OpenFile bk path O_RDONLY"

definition bk_Create :: "backend \<Rightarrow> string \<Rightarrow> error + (bfile \<times> backend)" where
  "bk_Create bk path = bk_OpenFile bk path (O_RDWR OR O_CREATE OR O_TRUNC)"


definition bk_MkdirAll :: "backend \<Rightarrow> string \<Rightarrow> error + backend" where
  "bk_MkdirAll bk path =
     (let k = Clean path
      in case bk_get bk k of
           Some BDir \<Rightarrow> Inr bk
         | Some (BFile c) \<Rightarrow> Inl (Errorf ''file already exists'')
         | None \<Rightarrow>
             (case bk_createParent bk k of
                Inl e \<Rightarrow> Inl e
              | Inr bk' \<Rightarrow> Inr (bk' @ [(k, BDir)])))"

definition bk_ReadDir :: "backend \<Rightarrow> string \<Rightarrow> error + FileInfo list" where
  "bk_ReadDir bk path =
     (let k = Clean path
      in case bk_get bk k of
           None \<Rightarrow> Inl ErrNotExist
         | Some n \<Rightarrow>
             Inr (map (\<lambda>(p, n). \<lparr>fi_Name = Base p,
                                  fi_Size = (case n of BFile c \<Rightarrow> length c | BDir \<Rightarrow> 0),
                                  fi_IsDir = (n = BDir)\<rparr>)
                      (filter (\<lambda>(p, n). Dir p = k) bk)))"

text \<open>Renaming moves the node and everything below it, replacing what was at the target.\<close>

definition moved :: "string \<Rightarrow> string \<Rightarrow> string \<Rightarrow> string" where
  "moved from to p =
     (if p = from then to
      else if HasPrefix p (from @ ''/'') then to @ drop (length from) p
      else p)"

definition bk_Rename :: "backend \<Rightarrow> string \<Rightarrow> string \<Rightarrow> error + backend" where
  "bk_Rename bk from to =
     (let f = Clean from; t = Clean to
      in case map_of bk f of
           None \<Rightarrow> Inl ErrNotExist
         | Some n \<Rightarrow>
             (case bk_createParent (filter (\<lambda>(p, n). moved f t p = p \<and> p \<noteq> t) bk) t of
                Inl e \<Rightarrow> Inl e
              | Inr bk' \<Rightarrow>
                  Inr (bk' @ map (\<lambda>(p, n). (moved f t p, n)) (filter (\<lambda>(p, n). moved f t p \<noteq> p) bk))))"

definition bk_Remove :: "backend \<Rightarrow> string \<Rightarrow> error + backend" where
  "bk_Remove bk path =
     (let k = Clean path
      in case map_of bk k of
           None \<Rightarrow> Inl ErrNotExist
         | Some n \<Rightarrow>
             (if n = BDir \<and> (\<exists>(p, n) \<in> set bk. Dir p = k)
              then Inl (Errorf ''dir contains files'')
              else Inr (AList.delete k bk)))"

text \<open>Operations on a backend handle; \<open>io.ReadFull\<close> and \<open>io.ReadAll\<close> over its \<open>Read\<close>.\<close>

definition bfile_Write :: "backend \<Rightarrow> bfile \<Rightarrow> bytes \<Rightarrow> error + (bfile \<times> backend)" where
  "bfile_Write bk h p =
     (if bclosed h then Inl ErrClosed
      else
        let old = bk_content bk (bname h);
            padded = old @ replicate (bpos h - length old) 0;
            new = take (bpos h) padded @ p @ drop (bpos h + length p) padded
        in Inr (h\<lparr>bpos := bpos h + length p\<rparr>, AList.update (bname h) (BFile new) bk))"

definition bfile_Seek0 :: "bfile \<Rightarrow> error + bfile" where
  "bfile_Seek0 h = (if bclosed h then Inl ErrClosed else Inr (h\<lparr>bpos := 0\<rparr>))"

definition bfile_Close :: "bfile \<Rightarrow> error + bfile" where
  "bfile_Close h = (if bclosed h then Inl ErrClosed else Inr (h\<lparr>bclosed := True\<rparr>))"

definition io_ReadFull :: "backend \<Rightarrow> bfile \<Rightarrow> nat \<Rightarrow> (bytes \<times> error option) \<times> bfile" where
  "io_ReadFull bk h n =
     (if bclosed h then (([], Some ErrClosed), h)
      else
        let rest = drop (bpos h) (bk_content bk (bname h))
        in if n \<le> length rest then ((take n rest, None), h\<lparr>bpos := bpos h + n\<rparr>)
           else if rest = [] then (([], Some EOF), h)
           else ((rest, Some ErrUnexpectedEOF), h\<lparr>bpos := bpos h + length rest\<rparr>))"

definition io_ReadAll :: "backend \<Rightarrow> bfile \<Rightarrow> (error + bytes) \<times> bfile" where
  "io_ReadAll bk h =
     (if bclosed h then (Inl ErrClosed, h)
      else
        let rest = drop (bpos h) (bk_content bk (bname h))
        in (Inr rest, h\<lparr>bpos := bpos h + length rest\<rparr>))"

section \<open>The volume and the streaming adapters\<close>

text \<open>
  \<open>GrainFS\<close> is the struct of the same name, with the filemap manager's cache as a field
  and the state of \<open>crypto/rand\<close> beside it. A \<open>FilenameMap\<close> is a Go map, hence a
  reference: every map the code handles is the one stored in the cache under its
  directory (\<open>loadFilemap\<close> returns the cached map or caches the one it makes, and no
  cache entry is ever removed), so an assignment through such a reference is an update
  of the cache entry.
\<close>

type_synonym FilenameMap = "string \<rightharpoonup> string"

record GrainFS =
  underlying :: backend
  masterKey :: bytes
  filenameKey :: bytes
  rootPath :: string
  cache :: "string \<rightharpoonup> FilenameMap"
  entropy :: rng

record EncryptingWriter =
  ew_gcm :: bytes
  ew_nonce :: bytes
  ew_buffer :: bytes

record DecryptingReader =
  dr_gcm :: bytes
  dr_nonce :: bytes
  dr_decrypted :: bytes
  dr_pos :: nat
  dr_initialized :: bool

text \<open>The writer and the reader share the handle of the file that owns them.\<close>

definition NewEncryptingWriter ::
  "lib \<Rightarrow> bytes \<Rightarrow> bfile \<Rightarrow> GrainFS \<Rightarrow> (error + EncryptingWriter) \<times> bfile \<times> GrainFS" where
  "NewEncryptingWriter L key w s =
     (case aes_NewCipher key of
        Inl e \<Rightarrow> (Inl (Wrap ''failed to create cipher'' e), w, s)
      | Inr gcm \<Rightarrow>
          (let (nonce, g') = rand_Read (entropy s) NonceSize;
               s1 = s\<lparr>entropy := g'\<rparr>
           in case bfile_Write (underlying s1) w nonce of
                Inl e \<Rightarrow> (Inl (Wrap ''failed to write nonce'' e), w, s1)
              | Inr (w', bk') \<Rightarrow>
                  (Inr \<lparr>ew_gcm = gcm, ew_nonce = nonce, ew_buffer = []\<rparr>,
                   w', s1\<lparr>underlying := bk'\<rparr>)))"

definition EncryptingWriter_Write :: "EncryptingWriter \<Rightarrow> bytes \<Rightarrow> nat \<times> EncryptingWriter" where
  "EncryptingWriter_Write ew p = (length p, ew\<lparr>ew_buffer := ew_buffer ew @ p\<rparr>)"

definition EncryptingWriter_Close ::
  "lib \<Rightarrow> EncryptingWriter \<Rightarrow> bfile \<Rightarrow> GrainFS \<Rightarrow> error option \<times> bfile \<times> GrainFS" where
  "EncryptingWriter_Close L ew w s =
     (let encrypted =
            (if length (ew_buffer ew) = 0 then gcm_Seal L (ew_gcm ew) (ew_nonce ew) []
             else gcm_Seal L (ew_gcm ew) (ew_nonce ew) (ew_buffer ew))
      in case bfile_Write (underlying s) w encrypted of
           Inl e \<Rightarrow> (Some e, w, s)
         | Inr (w', bk') \<Rightarrow> (None, w', s\<lparr>underlying := bk'\<rparr>))"

definition NewDecryptingReader :: "bytes \<Rightarrow> error + DecryptingReader" where
  "NewDecryptingReader key =
     (case aes_NewCipher key of
        Inl e \<Rightarrow> Inl (Wrap ''failed to create cipher'' e)
      | Inr gcm \<Rightarrow>
          Inr \<lparr>dr_gcm = gcm, dr_nonce = [], dr_decrypted = [], dr_pos = 0, dr_initialized = False\<rparr>)"

definition DecryptingReader_initialize ::
  "lib \<Rightarrow> backend \<Rightarrow> DecryptingReader \<Rightarrow> bfile \<Rightarrow> error option \<times> DecryptingReader \<times> bfile" where
  "DecryptingReader_initialize L bk dr r =
     (case io_ReadFull bk r NonceSize of
        ((got, Some e), r1) \<Rightarrow>
          (Some (Wrap ''failed to read nonce'' e),
           dr\<lparr>dr_nonce := got @ replicate (NonceSize - length got) 0\<rparr>, r1)
      | ((got, None), r1) \<Rightarrow>
          (let dr1 = dr\<lparr>dr_nonce := got\<rparr>
           in case io_ReadAll bk r1 of
                (Inl e, r2) \<Rightarrow> (Some (Wrap ''failed to read encrypted data'' e), dr1, r2)
              | (Inr encrypted, r2) \<Rightarrow>
                  (case gcm_Open L (dr_gcm dr1) (dr_nonce dr1) encrypted of
                     None \<Rightarrow>
                       (Some (Wrap ''failed to decrypt data''
                                (Errorf ''cipher: message authentication failed'')),
                        dr1\<lparr>dr_decrypted := []\<rparr>, r2)
                   | Some plain \<Rightarrow> (None, dr1\<lparr>dr_decrypted := plain\<rparr>, r2))))"

definition DecryptingReader_Read ::
  "lib \<Rightarrow> backend \<Rightarrow> DecryptingReader \<Rightarrow> bfile \<Rightarrow> nat
     \<Rightarrow> (bytes \<times> error option) \<times> DecryptingReader \<times> bfile" where
  "DecryptingReader_Read L bk dr r len_p =
     (let (err, dr1, r1) =
            (if \<not> dr_initialized dr
             then (case DecryptingReader_initialize L bk dr r of
                     (Some e, dr', r') \<Rightarrow> (Some e, dr', r')
                   | (None, dr', r') \<Rightarrow> (None, dr'\<lparr>dr_initialized := True\<rparr>, r'))
             else (None, dr, r))
      in case err of
           Some e \<Rightarrow> (([], Some e), dr1, r1)
         | None \<Rightarrow>
             (let available = length (dr_decrypted dr1) - dr_pos dr1
              in if available = 0 then (([], Some EOF), dr1, r1)
                 else
                   let n = (if len_p > available then available else len_p)
                   in ((take n (drop (dr_pos dr1) (dr_decrypted dr1)), None),
                       dr1\<lparr>dr_pos := dr_pos dr1 + n\<rparr>, r1)))"

section \<open>The file envelope\<close>

record EncryptedFile =
  handle :: bfile
  ef_filename :: string
  ef_obfuscated :: string
  ef_flag :: flags
  isWriteMode :: bool
  isTempFile :: bool
  decryptingReader :: "DecryptingReader option"
  readInitialized :: bool
  encryptingWriter :: "EncryptingWriter option"
  closed :: bool

definition initializeReader :: "lib \<Rightarrow> GrainFS \<Rightarrow> EncryptedFile \<Rightarrow> error option \<times> EncryptedFile" where
  "initializeReader L s f =
     (case bfile_Seek0 (handle f) of
        Inl e \<Rightarrow> (Some (Wrap ''failed to seek to beginning'' e), f)
      | Inr h0 \<Rightarrow>
          (case NewDecryptingReader (masterKey s) of
             Inl e \<Rightarrow>
               (Some (Wrap ''failed to create decrypting reader'' e),
                f\<lparr>handle := h0, decryptingReader := None\<rparr>)
           | Inr dr \<Rightarrow>
               (case DecryptingReader_Read L (underlying s) dr h0 1 of
                  ((got, err), dr1, h1) \<Rightarrow>
                    (if err \<noteq> None \<and> err \<noteq> Some EOF
                     then (Some (Wrap ''failed to initialize decrypting reader'' (the err)),
                           f\<lparr>handle := h1, decryptingReader := Some dr1\<rparr>)
                     else (None, f\<lparr>handle := h1, decryptingReader := Some (dr1\<lparr>dr_pos := 0\<rparr>)\<rparr>)))))"

definition EncryptedFile_Read ::
  "lib \<Rightarrow> GrainFS \<Rightarrow> EncryptedFile \<Rightarrow> nat \<Rightarrow> (bytes \<times> error option) \<times> EncryptedFile" where
  "EncryptedFile_Read L s f len_p =
     (if closed f then (([], Some ErrClosed), f)
      else if isWriteMode f then (([], Some (Errorf ''file opened for writing'')), f)
      else
        let (err, f1) =
              (if \<not> readInitialized f
               then (case initializeReader L s f of
                       (Some e, f') \<Rightarrow> (Some (Wrap ''failed to initialize reader'' e), f')
                     | (None, f') \<Rightarrow> (None, f'\<lparr>readInitialized := True\<rparr>))
               else (None, f))
        in case err of
             Some e \<Rightarrow> (([], Some e), f1)
           | None \<Rightarrow>
               (case decryptingReader f1 of
                  None \<Rightarrow> (([], Some (Errorf ''nil pointer dereference'')), f1)
                | Some dr \<Rightarrow>
                    (case DecryptingReader_Read L (underlying s) dr (handle f1) len_p of
                       (res, dr', h') \<Rightarrow> (res, f1\<lparr>handle := h', decryptingReader := Some dr'\<rparr>))))"

definition EncryptedFile_ReadAt ::
  "lib \<Rightarrow> GrainFS \<Rightarrow> EncryptedFile \<Rightarrow> nat \<Rightarrow> int \<Rightarrow> (bytes \<times> error option) \<times> EncryptedFile" where
  "EncryptedFile_ReadAt L s f len_p off =
     (if closed f then (([], Some ErrClosed), f)
      else if isWriteMode f then (([], Some (Errorf ''file opened for writing'')), f)
      else
        let (err, f1) =
              (if \<not> readInitialized f
               then (case initializeReader L s f of
                       (Some e, f') \<Rightarrow> (Some (Wrap ''failed to initialize reader'' e), f')
                     | (None, f') \<Rightarrow> (None, f'\<lparr>readInitialized := True\<rparr>))
               else (None, f))
        in case err of
             Some e \<Rightarrow> (([], Some e), f1)
           | None \<Rightarrow>
               (if off < 0 then (([], Some (Errorf ''negative offset'')), f1)
                else case decryptingReader f1 of
                  None \<Rightarrow> (([], Some (Errorf ''decrypting reader not initialized'')), f1)
                | Some dr \<Rightarrow>
                    (if \<not> dr_initialized dr
                     then (([], Some (Errorf ''decrypting reader data not available'')), f1)
                     else if off \<ge> int (length (dr_decrypted dr)) then (([], Some EOF), f1)
                     else
                       let available = int (length (dr_decrypted dr)) - off;
                           (n, err) = (if int len_p > available then (nat available, Some EOF)
                                       else (len_p, None))
                       in ((take n (drop (nat off) (dr_decrypted dr)), err), f1))))"

definition EncryptedFile_Write ::
  "lib \<Rightarrow> EncryptedFile \<Rightarrow> bytes \<Rightarrow> GrainFS \<Rightarrow> ((nat \<times> error option) \<times> EncryptedFile) \<times> GrainFS" where
  "EncryptedFile_Write L f p s =
     (if closed f then (((0, Some ErrClosed), f), s)
      else if \<not> isWriteMode f then (((0, Some (Errorf ''file not opened for writing'')), f), s)
      else
        let (r, f1, s1) =
              (case encryptingWriter f of
                 Some ew \<Rightarrow> (Inr ew, f, s)
               | None \<Rightarrow>
                   (case NewEncryptingWriter L (masterKey s) (handle f) s of
                      (Inl e, w', s') \<Rightarrow>
                        (Inl (Wrap ''failed to initialize encrypting writer'' e),
                         f\<lparr>handle := w', encryptingWriter := None\<rparr>, s')
                    | (Inr ew, w', s') \<Rightarrow>
                        (Inr ew, f\<lparr>handle := w', encryptingWriter := Some ew\<rparr>, s')))
        in case r of
             Inl e \<Rightarrow> (((0, Some e), f1), s1)
           | Inr ew \<Rightarrow>
               (let (n, ew') = EncryptingWriter_Write ew p
                in (((n, None), f1\<lparr>encryptingWriter := Some ew'\<rparr>), s1)))"

definition EncryptedFile_Close ::
  "lib \<Rightarrow> EncryptedFile \<Rightarrow> GrainFS \<Rightarrow> (error option \<times> EncryptedFile) \<times> GrainFS" where
  "EncryptedFile_Close L f s =
     (if closed f then ((None, f), s)
      else
        let (err, f1, s1) =
              (case encryptingWriter f of
                 None \<Rightarrow> (None, f, s)
               | Some ew \<Rightarrow>
                   (case EncryptingWriter_Close L ew (handle f) s of
                      (Some closeErr, w', s') \<Rightarrow>
                        (Some (Wrap ''failed to finalize encryption'' closeErr), f\<lparr>handle := w'\<rparr>, s')
                    | (None, w', s') \<Rightarrow> (None, f\<lparr>handle := w'\<rparr>, s')));
            (err2, f2) =
              (case bfile_Close (handle f1) of
                 Inl closeErr \<Rightarrow> (if err = None then Some closeErr else err, f1)
               | Inr h' \<Rightarrow> (err, f1\<lparr>handle := h'\<rparr>))
        in ((err2, f2\<lparr>closed := True\<rparr>), s1))"


section \<open>Operations on the volume: state and errors\<close>

text \<open>
  A method of \<open>*GrainFS\<close> takes the volume and returns its result with the volume as it
  left it; what it changed before an error stays changed.
\<close>

type_synonym 'a M = "GrainFS \<Rightarrow> (error + 'a) \<times> GrainFS"

definition ret :: "'a \<Rightarrow> 'a M" where
  "ret x = (\<lambda>s. (Inr x, s))"

definition throw :: "error \<Rightarrow> 'a M" where
  "throw e = (\<lambda>s. (Inl e, s))"

definition bind :: "'a M \<Rightarrow> ('a \<Rightarrow> 'b M) \<Rightarrow> 'b M" where
  "bind m f = (\<lambda>s. case m s of (Inl e, s') \<Rightarrow> (Inl e, s') | (Inr a, s') \<Rightarrow> f a s')"

definition wrapE :: "string \<Rightarrow> 'a M \<Rightarrow> 'a M" where
  "wrapE msg m = (\<lambda>s. case m s of (Inl e, s') \<Rightarrow> (Inl (Wrap msg e), s') | (Inr a, s') \<Rightarrow> (Inr a, s'))"

definition GrainFSDir :: string where "GrainFSDir = ''.grainfs''"
definition ConfigFile :: string where "ConfigFile = ''config.json''"
definition FilemapFile :: string where "FilemapFile = ''filemap.json''"

section \<open>The filemap store\<close>

text \<open>
  \<open>getObfuscatedPath\<close> calls \<open>obfuscateFilename\<close>, which loads and saves filemaps, which
  call \<open>getObfuscatedPath\<close> on the directory. The functions of this section take that
  inner \<open>getObfuscatedPath\<close> as the argument \<open>G\<close>; the knot is tied below.
\<close>

definition loadFilemap_with :: "(string \<Rightarrow> string M) \<Rightarrow> lib \<Rightarrow> string \<Rightarrow> FilenameMap M" where
  "loadFilemap_with G L dir = (\<lambda>s.
     case cache s dir of
       Some cached \<Rightarrow> (Inr cached, s)
     | None \<Rightarrow>
         bind (wrapE ''failed to get obfuscated directory path'' (G dir)) (\<lambda>obfuscatedDir s1.
           let filemapPath = Join [obfuscatedDir, GrainFSDir, FilemapFile]
           in case bk_Open (underlying s1) filemapPath of
                Inl err \<Rightarrow>
                  (if IsNotExist err
                   then (Inr Map.empty, s1\<lparr>cache := (cache s1)(dir \<mapsto> Map.empty)\<rparr>)
                   else (Inl (Wrap ''failed to open filemap'' err), s1))
              | Inr (file, bk') \<Rightarrow>
                  (case io_ReadAll bk' file of
                     (Inl err, file') \<Rightarrow>
                       (Inl (Wrap ''failed to read filemap'' err), s1\<lparr>underlying := bk'\<rparr>)
                   | (Inr encryptedData, file') \<Rightarrow>
                       (case decryptData L (masterKey s1) encryptedData of
                          Inl err \<Rightarrow>
                            (Inl (Wrap ''failed to decrypt filemap'' err), s1\<lparr>underlying := bk'\<rparr>)
                        | Inr decryptedData \<Rightarrow>
                            (case json_Unmarshal L decryptedData of
                               None \<Rightarrow>
                                 (Inl (Wrap ''failed to unmarshal filemap'' (Errorf ''json'')),
                                  s1\<lparr>underlying := bk'\<rparr>)
                             | Some filemap \<Rightarrow>
                                 (Inr filemap,
                                  s1\<lparr>underlying := bk', cache := (cache s1)(dir \<mapsto> filemap)\<rparr>))))) s)"

definition saveFilemap_with ::
  "(string \<Rightarrow> string M) \<Rightarrow> lib \<Rightarrow> string \<Rightarrow> FilenameMap \<Rightarrow> unit M" where
  "saveFilemap_with G L dir filemap = (\<lambda>s.
     let jsonData = json_Marshal L filemap
     in case encryptData L (entropy s) (masterKey s) jsonData of
          Inl err \<Rightarrow> (Inl (Wrap ''failed to encrypt filemap'' err), s)
        | Inr (encryptedData, g') \<Rightarrow>
            bind (wrapE ''failed to get obfuscated directory path'' (G dir)) (\<lambda>obfuscatedDir s1.
              let filemapPath = Join [obfuscatedDir, GrainFSDir, FilemapFile]
              in case bk_Create (underlying s1) filemapPath of
                   Inl err \<Rightarrow> (Inl (Wrap ''failed to create filemap file'' err), s1)
                 | Inr (file, bk') \<Rightarrow>
                     (case bfile_Write bk' file encryptedData of
                        Inl err \<Rightarrow>
                          (Inl (Wrap ''failed to write filemap'' err), s1\<lparr>underlying := bk'\<rparr>)
                      | Inr (file', bk'') \<Rightarrow>
                          (Inr (), s1\<lparr>underlying := bk'', cache := (cache s1)(dir \<mapsto> filemap)\<rparr>)))
              (s\<lparr>entropy := g'\<rparr>))"

definition ensureGrainFSDir_with :: "(string \<Rightarrow> string M) \<Rightarrow> string \<Rightarrow> unit M" where
  "ensureGrainFSDir_with G dir =
     bind (wrapE ''failed to get obfuscated directory path'' (G dir)) (\<lambda>obfuscatedDir s.
       let grainfsPath = Join [obfuscatedDir, GrainFSDir]
       in case bk_MkdirAll (underlying s) grainfsPath of
            Inl err \<Rightarrow> (Inl err, s)
          | Inr bk' \<Rightarrow> (Inr (), s\<lparr>underlying := bk'\<rparr>))"

text \<open>
  \<open>filemap[obfuscated] = original\<close> and \<open>delete(filemap, obfuscated)\<close> act on the map
  that \<open>loadFilemap\<close> returned, which is the cached one: the cache entry changes with it,
  before \<open>saveFilemap\<close> runs.
\<close>

definition updateFilemap_with ::
  "(string \<Rightarrow> string M) \<Rightarrow> lib \<Rightarrow> string \<Rightarrow> string \<Rightarrow> string \<Rightarrow> unit M" where
  "updateFilemap_with G L dir original obfuscated =
     bind (wrapE ''failed to ensure .grainfs directory'' (ensureGrainFSDir_with G dir)) (\<lambda>_ s.
       case loadFilemap_with G L dir s of
         (Inl err, s1) \<Rightarrow>
           (if IsNotExist err
            then saveFilemap_with G L dir (Map.empty(obfuscated \<mapsto> original)) s1
            else (Inl (Wrap ''failed to load existing filemap'' err), s1))
       | (Inr filemap, s1) \<Rightarrow>
           (let filemap' = filemap(obfuscated \<mapsto> original)
            in saveFilemap_with G L dir filemap' (s1\<lparr>cache := (cache s1)(dir \<mapsto> filemap')\<rparr>)))"

definition removeFromFilemap_with ::
  "(string \<Rightarrow> string M) \<Rightarrow> lib \<Rightarrow> string \<Rightarrow> string \<Rightarrow> unit M" where
  "removeFromFilemap_with G L dir obfuscated = (\<lambda>s.
     case loadFilemap_with G L dir s of
       (Inl err, s1) \<Rightarrow>
         (if IsNotExist err then (Inr (), s1)
          else (Inl (Wrap ''failed to load filemap'' err), s1))
     | (Inr filemap, s1) \<Rightarrow>
         (let filemap' = filemap(obfuscated := None)
          in saveFilemap_with G L dir filemap' (s1\<lparr>cache := (cache s1)(dir \<mapsto> filemap')\<rparr>)))"

text \<open>
  The collision loop of \<open>obfuscateFilename\<close>: \<open>Inl\<close> is the \<open>return\<close> inside the loop (the
  name is already mapped to this token), \<open>Inr\<close> the \<open>break\<close> (the token is free). The
  first argument bounds the number of iterations.
\<close>

primrec collision_loop ::
  "nat \<Rightarrow> (string \<Rightarrow> string M) \<Rightarrow> lib \<Rightarrow> string \<Rightarrow> string \<Rightarrow> string \<Rightarrow> string \<Rightarrow> nat
     \<Rightarrow> GrainFS \<Rightarrow> (error + (string + string)) \<times> GrainFS" where
  "collision_loop 0 G L dir filename obfuscated finalObfuscated counter s = (Inl OutOfFuel, s)"
| "collision_loop (Suc k) G L dir filename obfuscated finalObfuscated counter s =
     (case loadFilemap_with G L dir s of
        (Inl err, s1) \<Rightarrow> (Inl (Wrap ''failed to load filemap'' err), s1)
      | (Inr filemap, s1) \<Rightarrow>
          (case filemap finalObfuscated of
             Some existingOriginal \<Rightarrow>
               (if existingOriginal = filename then (Inr (Inl finalObfuscated), s1)
                else collision_loop k G L dir filename obfuscated
                       (obfuscated @ ''.'' @ itoa counter) (counter + 1) s1)
           | None \<Rightarrow> (Inr (Inr finalObfuscated), s1)))"

text \<open>The method \<open>(*GrainFS).obfuscateFilename(dir, filename)\<close>.\<close>

definition GrainFS_obfuscateFilename_with ::
  "nat \<Rightarrow> (string \<Rightarrow> string M) \<Rightarrow> lib \<Rightarrow> string \<Rightarrow> string \<Rightarrow> string M" where
  "GrainFS_obfuscateFilename_with k G L dir filename = (\<lambda>s.
     if filename = [] then (Inl (Errorf ''filename cannot be empty''), s)
     else if filename = GrainFSDir \<or> HasPrefix filename (GrainFSDir @ ''/'') then (Inr filename, s)
     else case obfuscateFilename L (filenameKey s) filename of
       Inl err \<Rightarrow> (Inl (Wrap ''failed to obfuscate filename'' err), s)
     | Inr obfuscated \<Rightarrow>
         (case collision_loop k G L dir filename obfuscated obfuscated 1 s of
            (Inl err, s1) \<Rightarrow> (Inl err, s1)
          | (Inr (Inl finalObfuscated), s1) \<Rightarrow> (Inr finalObfuscated, s1)
          | (Inr (Inr finalObfuscated), s1) \<Rightarrow>
              bind (wrapE ''failed to update filemap''
                      (updateFilemap_with G L dir filename finalObfuscated))
                   (\<lambda>_. ret finalObfuscated) s1))"

primrec getObfuscatedPath_loop ::
  "(string \<Rightarrow> string \<Rightarrow> string M) \<Rightarrow> string list \<Rightarrow> string \<Rightarrow> string list
     \<Rightarrow> GrainFS \<Rightarrow> (error + string list) \<times> GrainFS" where
  "getObfuscatedPath_loop obf [] currentDir obfuscatedParts s = (Inr obfuscatedParts, s)"
| "getObfuscatedPath_loop obf (part # rest) currentDir obfuscatedParts s =
     (if part = [] \<or> part = ''.'' then getObfuscatedPath_loop obf rest currentDir obfuscatedParts s
      else case obf currentDir part s of
        (Inl err, s1) \<Rightarrow> (Inl (Wrap ''failed to obfuscate path component'' err), s1)
      | (Inr obfuscatedPart, s1) \<Rightarrow>
          getObfuscatedPath_loop obf rest (Join [currentDir, obfuscatedPart])
            (obfuscatedParts @ [obfuscatedPart]) s1)"

definition getObfuscatedPath_with ::
  "(string \<Rightarrow> string \<Rightarrow> string M) \<Rightarrow> string \<Rightarrow> string M" where
  "getObfuscatedPath_with obf userPath =
     (if userPath = [] \<or> userPath = ''.'' then ret ''.''
      else
        bind (getObfuscatedPath_loop obf (Split (Clean userPath)) ''.'' []) (\<lambda>obfuscatedParts.
          if length obfuscatedParts = 0 then ret ''.'' else ret (Join obfuscatedParts)))"

text \<open>
  The knot: with bound \<open>n\<close>, \<open>getObfuscatedPath\<close> may nest \<open>n\<close> deep through the filemap
  functions, and each collision loop may run \<open>n + 1\<close> times.
\<close>

primrec getObfuscatedPath :: "nat \<Rightarrow> lib \<Rightarrow> string \<Rightarrow> string M" where
  "getObfuscatedPath 0 L userPath =
     getObfuscatedPath_with (GrainFS_obfuscateFilename_with 1 (\<lambda>p. throw OutOfFuel) L) userPath"
| "getObfuscatedPath (Suc n) L userPath =
     getObfuscatedPath_with
       (GrainFS_obfuscateFilename_with (Suc (Suc n)) (getObfuscatedPath n L) L) userPath"

definition inner :: "nat \<Rightarrow> lib \<Rightarrow> string \<Rightarrow> string M" where
  "inner n L = (case n of 0 \<Rightarrow> (\<lambda>p. throw OutOfFuel) | Suc m \<Rightarrow> getObfuscatedPath m L)"

definition loadFilemap :: "nat \<Rightarrow> lib \<Rightarrow> string \<Rightarrow> FilenameMap M" where
  "loadFilemap n L = loadFilemap_with (inner n L) L"

definition saveFilemap :: "nat \<Rightarrow> lib \<Rightarrow> string \<Rightarrow> FilenameMap \<Rightarrow> unit M" where
  "saveFilemap n L = saveFilemap_with (inner n L) L"

definition ensureGrainFSDir :: "nat \<Rightarrow> string \<Rightarrow> lib \<Rightarrow> unit M" where
  "ensureGrainFSDir n dir L = ensureGrainFSDir_with (inner n L) dir"

definition updateFilemap :: "nat \<Rightarrow> lib \<Rightarrow> string \<Rightarrow> string \<Rightarrow> string \<Rightarrow> unit M" where
  "updateFilemap n L = updateFilemap_with (inner n L) L"

definition removeFromFilemap :: "nat \<Rightarrow> lib \<Rightarrow> string \<Rightarrow> string \<Rightarrow> unit M" where
  "removeFromFilemap n L = removeFromFilemap_with (inner n L) L"

definition GrainFS_obfuscateFilename :: "nat \<Rightarrow> lib \<Rightarrow> string \<Rightarrow> string \<Rightarrow> string M" where
  "GrainFS_obfuscateFilename n L = GrainFS_obfuscateFilename_with (Suc n) (inner n L) L"

text \<open>The method \<open>(*GrainFS).deobfuscateFilename(dir, obfuscated)\<close>.\<close>

definition GrainFS_deobfuscateFilename :: "nat \<Rightarrow> lib \<Rightarrow> string \<Rightarrow> string \<Rightarrow> string M" where
  "GrainFS_deobfuscateFilename n L dir obfuscated =
     (if obfuscated = [] then throw (Errorf ''obfuscated filename cannot be empty'')
      else if obfuscated = GrainFSDir \<or> HasPrefix obfuscated (GrainFSDir @ ''/'') then ret obfuscated
      else
        bind (wrapE ''failed to load filemap'' (loadFilemap n L dir)) (\<lambda>filemap.
          case filemap obfuscated of
            None \<Rightarrow> throw (Errorf ''obfuscated filename not found in filemap'')
          | Some original \<Rightarrow> ret original))"

section \<open>Key derivation and the volume configuration\<close>

definition ConfigVersion :: string where "ConfigVersion = ''1.0.0''"
definition DefaultIterations :: int where "DefaultIterations = 100000"
definition SaltSize :: nat where "SaltSize = 32"
definition KeySize :: nat where "KeySize = 32"
definition FilenameKeySize :: nat where "FilenameKeySize = 32"

definition deriveKeys :: "lib \<Rightarrow> string \<Rightarrow> bytes \<Rightarrow> int \<Rightarrow> bytes \<times> bytes" where
  "deriveKeys L password salt iterations =
     (let masterKey = pbkdf2_Key L (bytes_of password) salt iterations KeySize;
          filenameSalt = salt @ bytes_of ''filename'';
          filenameKey = pbkdf2_Key L masterKey filenameSalt iterations FilenameKeySize
      in (masterKey, filenameKey))"

definition saveConfig :: "lib \<Rightarrow> Config \<Rightarrow> unit M" where
  "saveConfig L config = (\<lambda>s.
     case bk_MkdirAll (underlying s) GrainFSDir of
       Inl err \<Rightarrow> (Inl (Wrap ''failed to create .grainfs directory'' err), s)
     | Inr bk1 \<Rightarrow>
         (let configPath = Join [GrainFSDir, ConfigFile]; s1 = s\<lparr>underlying := bk1\<rparr>
          in case bk_Create bk1 configPath of
               Inl err \<Rightarrow> (Inl (Wrap ''failed to create config file'' err), s1)
             | Inr (file, bk2) \<Rightarrow>
                 (case bfile_Write bk2 file (json_Encode L config) of
                    Inl err \<Rightarrow> (Inl (Wrap ''failed to encode config'' err), s1\<lparr>underlying := bk2\<rparr>)
                  | Inr (file', bk3) \<Rightarrow> (Inr (), s1\<lparr>underlying := bk3\<rparr>))))"

definition initializeConfig :: "lib \<Rightarrow> unit M" where
  "initializeConfig L = (\<lambda>s.
     let (salt, g') = rand_Read (entropy s) SaltSize;
         config = \<lparr>Salt = salt, Iterations = DefaultIterations, Version = ConfigVersion\<rparr>
     in saveConfig L config (s\<lparr>entropy := g'\<rparr>))"

text \<open>\<open>loadConfig\<close> calls itself after it has initialised a missing configuration.\<close>

primrec loadConfig :: "nat \<Rightarrow> lib \<Rightarrow> Config M" where
  "loadConfig 0 L = throw OutOfFuel"
| "loadConfig (Suc n) L = (\<lambda>s.
     let configPath = Join [GrainFSDir, ConfigFile]
     in case bk_Open (underlying s) configPath of
          Inl err \<Rightarrow>
            (if IsNotExist err
             then (case initializeConfig L s of
                     (Inl e, s1) \<Rightarrow> (Inl (Wrap ''failed to initialize config'' e), s1)
                   | (Inr u, s1) \<Rightarrow> loadConfig n L s1)
             else (Inl (Wrap ''failed to open config file'' err), s))
        | Inr (file, bk') \<Rightarrow>
            (let s1 = s\<lparr>underlying := bk'\<rparr>
             in case io_ReadAll bk' file of
                  (Inl err, file') \<Rightarrow> (Inl (Wrap ''failed to decode config'' err), s1)
                | (Inr data, file') \<Rightarrow>
                    (case json_Decode L data of
                       None \<Rightarrow> (Inl (Wrap ''failed to decode config'' (Errorf ''json'')), s1)
                     | Some config \<Rightarrow>
                         (if length (Salt config) \<noteq> SaltSize
                          then (Inl (Errorf ''invalid salt size''), s1)
                          else if Iterations config \<le> 0
                          then (Inl (Errorf ''invalid iterations''), s1)
                          else (Inr config, s1)))))"

text \<open>
  \<open>New(underlying, password)\<close>. The backend is a value here, so the \<open>nil\<close> check has no
  counterpart; the volume is returned in both cases, since the backend it holds may
  have been written to before an error.
\<close>

definition New :: "nat \<Rightarrow> lib \<Rightarrow> backend \<Rightarrow> rng \<Rightarrow> string \<Rightarrow> (error + unit) \<times> GrainFS" where
  "New n L backing g password =
     (let fs = \<lparr>underlying = backing, masterKey = [], filenameKey = [], rootPath = ''.'',
                cache = Map.empty, entropy = g\<rparr>
      in if password = [] then (Inl (Errorf ''password cannot be empty''), fs)
         else case loadConfig n L fs of
                (Inl err, fs1) \<Rightarrow> (Inl (Wrap ''failed to load config'' err), fs1)
              | (Inr config, fs1) \<Rightarrow>
                  (let (mk, fk) = deriveKeys L password (Salt config) (Iterations config)
                   in (Inr (), fs1\<lparr>masterKey := mk, filenameKey := fk\<rparr>)))"

section \<open>The filesystem facade\<close>

record FileInfoWrapper =
  fiw_FileInfo :: FileInfo
  fiw_originalName :: string

primrec mkdirAll_loop :: "string list \<Rightarrow> nat \<Rightarrow> lib \<Rightarrow> string \<Rightarrow> unit M" where
  "mkdirAll_loop [] n L currentPath = ret ()"
| "mkdirAll_loop (part # rest) n L currentPath =
     (if part = [] \<or> part = ''.'' then mkdirAll_loop rest n L currentPath
      else
        let currentPath' = (if currentPath = [] then part else Join [currentPath, part])
        in bind (wrapE ''failed to get obfuscated path for'' (getObfuscatedPath n L currentPath'))
             (\<lambda>obfuscatedPath s.
                case bk_MkdirAll (underlying s) obfuscatedPath of
                  Inl err \<Rightarrow> (Inl (Wrap ''failed to create directory'' err), s)
                | Inr bk' \<Rightarrow>
                    bind (wrapE ''failed to ensure .grainfs directory for''
                            (ensureGrainFSDir n currentPath' L))
                         (\<lambda>_. mkdirAll_loop rest n L currentPath') (s\<lparr>underlying := bk'\<rparr>)))"

definition mkdirAllInternal :: "nat \<Rightarrow> lib \<Rightarrow> string \<Rightarrow> unit M" where
  "mkdirAllInternal n L path =
     (if path = [] \<or> path = ''.'' then ret ()
      else mkdirAll_loop (Split (Clean path)) n L [])"

definition openFileInternal :: "nat \<Rightarrow> lib \<Rightarrow> string \<Rightarrow> flags \<Rightarrow> EncryptedFile M" where
  "openFileInternal n L filename flag =
     (if filename = [] then throw (Errorf ''filename cannot be empty'')
      else
        let isCreating = (flag AND O_CREATE \<noteq> 0)
        in bind
             (if isCreating then
                (let dir = (if Dir filename = filename then ''.'' else Dir filename);
                     basename = Base filename
                 in bind (if dir \<noteq> ''.''
                          then wrapE ''failed to create directory'' (mkdirAllInternal n L dir)
                          else ret ())
                      (\<lambda>_. bind (wrapE ''failed to get obfuscated directory path''
                                    (getObfuscatedPath n L dir))
                        (\<lambda>obfuscatedDir. bind (wrapE ''failed to obfuscate filename''
                                                 (GrainFS_obfuscateFilename n L dir basename))
                          (\<lambda>obfuscatedBasename. ret (Join [obfuscatedDir, obfuscatedBasename])))))
              else wrapE ''failed to get obfuscated path'' (getObfuscatedPath n L filename))
             (\<lambda>obfuscatedPath s.
                case bk_OpenFile (underlying s) obfuscatedPath flag of
                  Inl err \<Rightarrow> (Inl err, s)
                | Inr (underlyingFile, bk') \<Rightarrow>
                    (Inr \<lparr>handle = underlyingFile, ef_filename = filename,
                          ef_obfuscated = obfuscatedPath, ef_flag = flag,
                          isWriteMode = (flag AND O_WRONLY \<noteq> 0 \<or> flag AND O_RDWR \<noteq> 0),
                          isTempFile = False, decryptingReader = None, readInitialized = False,
                          encryptingWriter = None, closed = False\<rparr>,
                     s\<lparr>underlying := bk'\<rparr>)))"

definition OpenFile :: "nat \<Rightarrow> lib \<Rightarrow> string \<Rightarrow> flags \<Rightarrow> EncryptedFile M" where
  "OpenFile n L filename flag = openFileInternal n L filename flag"

definition Create :: "nat \<Rightarrow> lib \<Rightarrow> string \<Rightarrow> EncryptedFile M" where
  "Create n L filename = OpenFile n L filename (O_RDWR OR O_CREATE OR O_TRUNC)"

definition Open :: "nat \<Rightarrow> lib \<Rightarrow> string \<Rightarrow> EncryptedFile M" where
  "Open n L filename = OpenFile n L filename O_RDONLY"


definition Rename :: "nat \<Rightarrow> lib \<Rightarrow> string \<Rightarrow> string \<Rightarrow> unit M" where
  "Rename n L oldpath newpath =
     (if oldpath = [] \<or> newpath = [] then throw (Errorf ''paths cannot be empty'')
      else
        bind (wrapE ''failed to get old obfuscated path'' (getObfuscatedPath n L oldpath))
          (\<lambda>oldObfuscated.
             let newDir = (if Dir newpath = newpath then ''.'' else Dir newpath);
                 newBaseName = Base newpath
             in bind (wrapE ''failed to obfuscate new filename''
                        (GrainFS_obfuscateFilename n L newDir newBaseName))
                  (\<lambda>newObfuscated.
                     bind (wrapE ''failed to get new obfuscated directory''
                             (getObfuscatedPath n L newDir))
                       (\<lambda>newObfuscatedDir s.
                          let newObfuscatedPath = Join [newObfuscatedDir, newObfuscated]
                          in case bk_Rename (underlying s) oldObfuscated newObfuscatedPath of
                               Inl err \<Rightarrow> (Inl err, s)
                             | Inr bk' \<Rightarrow>
                                 (let oldDir = (if Dir oldpath = oldpath then ''.'' else Dir oldpath);
                                      oldObfuscatedBase = Base oldObfuscated
                                  in case removeFromFilemap n L oldDir oldObfuscatedBase
                                            (s\<lparr>underlying := bk'\<rparr>) of
                                       (Inl err, s1) \<Rightarrow>
                                         (Inl (Wrap ''failed to update old filemap'' err),
                                          case bk_Rename (underlying s1) newObfuscatedPath oldObfuscated of
                                            Inl e \<Rightarrow> s1
                                          | Inr bk'' \<Rightarrow> s1\<lparr>underlying := bk''\<rparr>)
                                     | (Inr u, s1) \<Rightarrow> (Inr (), s1))))))"

definition Remove :: "nat \<Rightarrow> lib \<Rightarrow> string \<Rightarrow> unit M" where
  "Remove n L filename =
     (if filename = [] then throw (Errorf ''filename cannot be empty'')
      else
        bind (wrapE ''failed to get obfuscated path'' (getObfuscatedPath n L filename))
          (\<lambda>obfuscatedPath s.
             case bk_Remove (underlying s) obfuscatedPath of
               Inl err \<Rightarrow> (Inl err, s)
             | Inr bk' \<Rightarrow>
                 (let dir = (if Dir filename = filename then ''.'' else Dir filename);
                      obfuscatedBase = Base obfuscatedPath
                  in removeFromFilemap n L dir obfuscatedBase (s\<lparr>underlying := bk'\<rparr>))))"

primrec ReadDir_loop ::
  "FileInfo list \<Rightarrow> nat \<Rightarrow> lib \<Rightarrow> string \<Rightarrow> FileInfoWrapper list
     \<Rightarrow> GrainFS \<Rightarrow> FileInfoWrapper list \<times> GrainFS" where
  "ReadDir_loop [] n L path result s = (result, s)"
| "ReadDir_loop (info # infos) n L path result s =
     (if fi_Name info = GrainFSDir then ReadDir_loop infos n L path result s
      else case GrainFS_deobfuscateFilename n L path (fi_Name info) s of
        (Inl err, s1) \<Rightarrow> ReadDir_loop infos n L path result s1
      | (Inr originalName, s1) \<Rightarrow>
          ReadDir_loop infos n L path
            (result @ [\<lparr>fiw_FileInfo = info, fiw_originalName = originalName\<rparr>]) s1)"

definition ReadDir :: "nat \<Rightarrow> lib \<Rightarrow> string \<Rightarrow> FileInfoWrapper list M" where
  "ReadDir n L path0 =
     (let path = (if path0 = [] then ''.'' else path0)
      in bind (wrapE ''failed to get obfuscated path'' (getObfuscatedPath n L path))
           (\<lambda>obfuscatedPath s.
              case bk_ReadDir (underlying s) obfuscatedPath of
                Inl err \<Rightarrow> (Inl err, s)
              | Inr infos \<Rightarrow>
                  (case ReadDir_loop infos n L path [] s of
                     (result, s1) \<Rightarrow> (Inr result, s1))))"

section \<open>A small instance of the library, to run the embedding\<close>

text \<open>
  Not cryptography: an instance of \<open>lib\<close> with the right lengths and a seal that opens,
  used to evaluate the embedding on concrete inputs.
\<close>

definition ref_lib :: lib where
  "ref_lib =
     \<lparr>sha256_Sum = (\<lambda>x. take 32 (x @ replicate 32 0)),
      hmac_sha256 = (\<lambda>k x. take 32 (x @ replicate 32 0)),
      aes_ctr_stream = (\<lambda>k iv i. 0),
      gcm_Seal = (\<lambda>k n p. p @ replicate 16 0),
      gcm_Open = (\<lambda>k n c. if length c < 16 \<or> drop (length c - 16) c \<noteq> replicate 16 0 then None
                            else Some (take (length c - 16) c)),
      pbkdf2_Key = (\<lambda>p s i n. take n (p @ s @ replicate n 0)),
      json_Marshal = (\<lambda>m. []),
      json_Unmarshal = (\<lambda>b. Some Map.empty),
      json_Encode = Salt,
      json_Decode = (\<lambda>b. Some \<lparr>Salt = b, Iterations = 100000, Version = ''1.0.0''\<rparr>)\<rparr>"

definition ref_rng :: rng where
  "ref_rng = \<lparr>rng_src = (\<lambda>i. word_of_nat i), rng_pos = 0\<rparr>"

text \<open>A volume as \<open>New\<close> leaves it over an empty backend: the configuration and nothing else.\<close>

definition ref_volume :: GrainFS where
  "ref_volume =
     \<lparr>underlying = [(''.grainfs'', BDir), (''.grainfs/config.json'', BFile (replicate 32 7))],
      masterKey = replicate 32 1, filenameKey = replicate 32 2, rootPath = ''.'',
      cache = Map.empty, entropy = ref_rng\<rparr>"

section \<open>Vocabulary for the properties\<close>

text \<open>
  A mounted volume, as far as operations on entries of the root directory need it: the
  keys are of AES-256 size, the root sidecar directory exists, nothing but a file is in
  the place of the root filemap, and a root filemap that was never loaded is not on the
  backend yet (the volume is new).
\<close>

definition mounted :: "GrainFS \<Rightarrow> bool" where
  "mounted s \<longleftrightarrow>
     length (masterKey s) = 32 \<and> length (filenameKey s) = 32 \<and>
     map_of (underlying s) ''.grainfs'' = Some BDir \<and>
     map_of (underlying s) ''.grainfs/filemap.json'' \<noteq> Some BDir \<and>
     (cache s ''.'' = None \<longrightarrow> map_of (underlying s) ''.grainfs/filemap.json'' = None)"

text \<open>The filemap of the root directory: the cached one, empty before the first load.\<close>

definition root_map :: "GrainFS \<Rightarrow> FilenameMap" where
  "root_map s = (case cache s ''.'' of Some m \<Rightarrow> m | None \<Rightarrow> Map.empty)"

text \<open>The volume after the root filemap \<open>m\<close> has been cached, and after it has been saved.\<close>

definition with_root :: "FilenameMap \<Rightarrow> GrainFS \<Rightarrow> GrainFS" where
  "with_root m s = s\<lparr>cache := (cache s)(''.'' \<mapsto> m)\<rparr>"

definition saved_root :: "lib \<Rightarrow> FilenameMap \<Rightarrow> GrainFS \<Rightarrow> GrainFS" where
  "saved_root L m s =
     (let (nonce, g') = rand_Read (entropy s) NonceSize
      in s\<lparr>underlying := AList.update ''.grainfs/filemap.json''
                            (BFile (nonce @ gcm_Seal L (masterKey s) nonce (json_Marshal L m)))
                            (underlying s),
           cache := (cache s)(''.'' \<mapsto> m),
           entropy := g'\<rparr>)"

text \<open>
  A name that is one path element of the root directory and is not reserved for the
  sidecar.
\<close>

definition plain_name :: "string \<Rightarrow> bool" where
  "plain_name name \<longleftrightarrow>
     name \<noteq> [] \<and> CHR ''/'' \<notin> set name \<and> name \<noteq> ''.'' \<and> name \<noteq> ''.grainfs''"

text \<open>
  The volume after \<open>name\<close> has been given its token in the root filemap: nothing to
  save when it had it already.
\<close>

definition mapped_root :: "lib \<Rightarrow> string \<Rightarrow> GrainFS \<Rightarrow> GrainFS" where
  "mapped_root L name s =
     (let tok = encoded_token L (filenameKey s) name
      in if root_map s tok = Some name then with_root (root_map s) s
         else saved_root L ((root_map s)(tok \<mapsto> name)) s)"

text \<open>The volume with the bytes \<open>c\<close> in the backend file \<open>k\<close>.\<close>

definition put_file :: "string \<Rightarrow> bytes \<Rightarrow> GrainFS \<Rightarrow> GrainFS" where
  "put_file k c s = s\<lparr>underlying := AList.update k (BFile c) (underlying s)\<rparr>"

text \<open>The envelope that \<open>openFileInternal\<close> builds over a backend file it has just opened.\<close>

definition new_file :: "string \<Rightarrow> string \<Rightarrow> flags \<Rightarrow> EncryptedFile" where
  "new_file name obfuscatedPath fl =
     \<lparr>handle = \<lparr>bname = obfuscatedPath, bpos = 0, bclosed = False\<rparr>,
      ef_filename = name, ef_obfuscated = obfuscatedPath, ef_flag = fl,
      isWriteMode = (fl AND O_WRONLY \<noteq> 0 \<or> fl AND O_RDWR \<noteq> 0),
      isTempFile = False, decryptingReader = None, readInitialized = False,
      encryptingWriter = None, closed = False\<rparr>"

text \<open>
  A read handle whose reader holds the decrypted content \<open>plain\<close>, with the cursor at \<open>p\<close>.
\<close>

definition ready :: "EncryptedFile \<Rightarrow> bytes \<Rightarrow> nat \<Rightarrow> bool" where
  "ready f plain p \<longleftrightarrow>
     \<not> closed f \<and> \<not> isWriteMode f \<and> readInitialized f \<and>
     (\<exists>dr. decryptingReader f = Some dr \<and> dr_initialized dr \<and> dr_decrypted dr = plain \<and> dr_pos dr = p)"

text \<open>
  The two halves of the round trip, as the tests of the repository run them: create,
  write once, close; and open, read all. The first error ends the sequence.
\<close>

definition create_write_close :: "nat \<Rightarrow> lib \<Rightarrow> string \<Rightarrow> bytes \<Rightarrow> unit M" where
  "create_write_close n L name data = (\<lambda>s.
     case Create n L name s of
       (Inl e, s1) \<Rightarrow> (Inl e, s1)
     | (Inr f, s1) \<Rightarrow>
         (case EncryptedFile_Write L f data s1 of
            (((k, Some e), f1), s2) \<Rightarrow> (Inl e, s2)
          | (((k, None), f1), s2) \<Rightarrow>
              (case EncryptedFile_Close L f1 s2 of
                 ((Some e, f2), s3) \<Rightarrow> (Inl e, s3)
               | ((None, f2), s3) \<Rightarrow> (Inr (), s3))))"

definition create_close :: "nat \<Rightarrow> lib \<Rightarrow> string \<Rightarrow> unit M" where
  "create_close n L name = (\<lambda>s.
     case Create n L name s of
       (Inl e, s1) \<Rightarrow> (Inl e, s1)
     | (Inr f, s1) \<Rightarrow>
         (case EncryptedFile_Close L f s1 of
            ((Some e, f2), s3) \<Rightarrow> (Inl e, s3)
          | ((None, f2), s3) \<Rightarrow> (Inr (), s3)))"


definition open_read :: "nat \<Rightarrow> lib \<Rightarrow> string \<Rightarrow> nat \<Rightarrow> (bytes \<times> error option) M" where
  "open_read n L name len_p = (\<lambda>s.
     case Open n L name s of
       (Inl e, s1) \<Rightarrow> (Inl e, s1)
     | (Inr f, s1) \<Rightarrow> (Inr (fst (EncryptedFile_Read L s1 f len_p)), s1))"

text \<open>
  The listing as the specification words it: drop the sidecar, give every other entry
  the name its token has in the filemap of the directory, drop the entries that have
  none.
\<close>

definition listing :: "FilenameMap \<Rightarrow> FileInfo list \<Rightarrow> FileInfoWrapper list" where
  "listing m infos =
     List.map_filter
       (\<lambda>info. if fi_Name info = ''.grainfs'' then None
               else case m (fi_Name info) of
                      None \<Rightarrow> None
                    | Some original \<Rightarrow> Some \<lparr>fiw_FileInfo = info, fiw_originalName = original\<rparr>)
       infos"

section \<open>Properties of the encoding\<close>

lemma length_EncodeToString: "length (EncodeToString xs) = 4 * ((length xs + 2) div 3)"
proof (induction xs rule: EncodeToString.induct)
  case (4 a b c rest)
  have "(length rest + 5) div 3 = Suc ((length rest + 2) div 3)"
    by arith
  with 4 show ?case
    by (simp add: Let_def add.commute)
qed (simp_all add: Let_def)

lemma length_bytes_of [simp]: "length (bytes_of s) = length s"
  by (simp add: bytes_of_def)

lemma length_XORKeyStream [simp]: "length (XORKeyStream ks p) = length p"
  by (simp add: XORKeyStream_def)

lemma length_combined:
  assumes "lib_ok L"
  shows "length (take aes_BlockSize (sha256_Sum L x) @ XORKeyStream ks (bytes_of n) @ hmac_sha256 L k y)
         = 48 + length n"
  using assms by (simp add: lib_ok_def aes_BlockSize_def)

section \<open>The reference instance satisfies the contract\<close>

lemma ref_lib_ok: "lib_ok ref_lib"
  by (auto simp: lib_ok_def ref_lib_def)

section \<open>The length limit of obfuscated names\<close>

lemma length_encoded_token:
  assumes "lib_ok L"
  shows "length (encoded_token L fkey filename) = 4 * ((length filename + 50) div 3)"
proof -
  have "length (encoded_token L fkey filename) = 4 * ((48 + length filename + 2) div 3)"
    unfolding encoded_token_def Let_def length_EncodeToString
    by (simp only: length_combined [OF assms])
  then show ?thesis by (simp add: add.commute)
qed

lemma obfuscateFilename_result:
  assumes "lib_ok L" and "length fkey = 32" and "filename \<noteq> []"
  shows "obfuscateFilename L fkey filename =
           (if 102 < length filename then Inl (Errorf ''obfuscated filename too long'')
            else Inr (encoded_token L fkey filename))"
proof -
  have "(200 < 4 * ((length filename + 50) div 3)) = (102 < length filename)"
    by arith
  then have "(MaxFilenameLen < length (encoded_token L fkey filename)) = (102 < length filename)"
    by (simp add: length_encoded_token [OF assms(1)] MaxFilenameLen_def)
  then show ?thesis
    using assms(2,3)
    by (simp add: obfuscateFilename_def aes_NewCipher_def encoded_token_def Let_def)
qed

text \<open>
  C5 (amended). The token of a name of \<open>n\<close> bytes is the padded base64 of \<open>16 + n + 32\<close>
  bytes, \<open>4 * ((n + 50) div 3)\<close> characters long. Names of up to 102 bytes obfuscate, to
  at most 200 characters; every name of 103 bytes or more is rejected as too long.
\<close>

theorem obfuscateFilename_length_limit:
  assumes "lib_ok L" and "length fkey = 32" and "filename \<noteq> []"
  shows "(length filename \<le> 102 \<longrightarrow>
            (\<exists>t. obfuscateFilename L fkey filename = Inr t
                 \<and> length t = 4 * ((length filename + 50) div 3) \<and> length t \<le> 200))
         \<and> (103 \<le> length filename \<longrightarrow>
            obfuscateFilename L fkey filename = Inl (Errorf ''obfuscated filename too long''))"
proof -
  have "length filename \<le> 102 \<Longrightarrow> 4 * ((length filename + 50) div 3) \<le> 200"
    by arith
  then show ?thesis
    by (simp add: obfuscateFilename_result [OF assms] length_encoded_token [OF assms(1)])
qed

theorem obfuscateFilename_length_limit_witness:
  "(\<exists>t. obfuscateFilename ref_lib (replicate 32 0) (replicate 102 CHR ''a'') = Inr t
        \<and> length t = 200)
   \<and> obfuscateFilename ref_lib (replicate 32 0) (replicate 103 CHR ''a'')
       = Inl (Errorf ''obfuscated filename too long'')"
  using obfuscateFilename_length_limit [OF ref_lib_ok, of "replicate 32 0" "replicate 102 CHR ''a''"]
        obfuscateFilename_length_limit [OF ref_lib_ok, of "replicate 32 0" "replicate 103 CHR ''a''"]
  by auto

text \<open>C5 as stated fails: a name of 143 bytes is rejected.\<close>

theorem name_of_143_bytes_rejected:
  "obfuscateFilename ref_lib (replicate 32 0) (replicate 143 CHR ''a'')
     = Inl (Errorf ''obfuscated filename too long'')"
  using obfuscateFilename_result [OF ref_lib_ok, of "replicate 32 0" "replicate 143 CHR ''a''"]
  by simp

lemma Split_noslash: "CHR ''/'' \<notin> set t \<Longrightarrow> Split t = [t]"
  by (induction t) auto

lemma Clean_simple:
  assumes "CHR ''/'' \<notin> set t" and "t \<noteq> []" and "t \<noteq> ''.''"
  shows "Clean t = t"
proof -
  have "hd t \<noteq> CHR ''/''" using assms(1,2) by (cases t) auto
  then show ?thesis
    using assms by (simp add: Clean_def Split_noslash Let_def)
qed

lemma Split_dot_slash: "CHR ''/'' \<notin> set t \<Longrightarrow> Split (''./'' @ t) = [''.'', t]"
  by (simp add: Split_noslash)

lemma Join_single:
  assumes "CHR ''/'' \<notin> set t" and "t \<noteq> []" and "t \<noteq> ''.''"
  shows "Join [t] = t"
  using assms by (simp add: Join_def Clean_simple)

lemma Join_dot:
  assumes "CHR ''/'' \<notin> set t" and "t \<noteq> []" and "t \<noteq> ''.''"
  shows "Join [''.'', t] = t"
proof -
  have "Clean (''./'' @ t) = t"
    using assms by (simp add: Clean_def Split_noslash Let_def)
  then show ?thesis by (simp add: Join_def)
qed

lemma Dir_simple: "CHR ''/'' \<notin> set t \<Longrightarrow> Dir t = ''.''"
proof -
  assume a: "CHR ''/'' \<notin> set t"
  then have "dropWhile (\<lambda>c. c \<noteq> CHR ''/'') (rev t) = []"
    by auto
  then show ?thesis by (simp add: Dir_def Clean_def)
qed

lemma Base_simple:
  assumes "CHR ''/'' \<notin> set t" and "t \<noteq> []"
  shows "Base t = t"
proof -
  have 1: "dropWhile (\<lambda>c. c = CHR ''/'') (rev t) = rev t"
    using assms by (cases "rev t") auto
  have 2: "takeWhile (\<lambda>c. c \<noteq> CHR ''/'') (rev t) = rev t"
    using assms(1) by auto
  show ?thesis using assms(2) by (simp add: Base_def 1 2 Let_def)
qed

lemma filemapPath_root: "Join [''.'', GrainFSDir, FilemapFile] = ''.grainfs/filemap.json''"
  by (simp add: Join_def GrainFSDir_def FilemapFile_def Clean_def Let_def)

lemma grainfsPath_root: "Join [''.'', GrainFSDir] = ''.grainfs''"
  by (simp add: Join_def GrainFSDir_def Clean_def Let_def)

lemma Clean_filemapPath: "Clean ''.grainfs/filemap.json'' = ''.grainfs/filemap.json''"
  by (simp add: Clean_def Let_def)

lemma Clean_grainfs: "Clean ''.grainfs'' = ''.grainfs''"
  by (simp add: Clean_def Let_def)

lemma ancestors_filemapPath: "ancestors ''.grainfs/filemap.json'' = [''.grainfs'']"
  by (simp add: ancestors_def Let_def upt_rec)

lemma ancestors_simple: "CHR ''/'' \<notin> set t \<Longrightarrow> ancestors t = []"
  by (simp add: ancestors_def Split_noslash)

lemma b64char_in: "b64char n \<in> set encodeURL"
proof -
  have "length encodeURL = 64" by (simp add: encodeURL_def)
  then show ?thesis by (simp add: b64char_def)
qed

lemma set_EncodeToString: "set (EncodeToString xs) \<subseteq> insert (CHR ''='') (set encodeURL)"
  by (induction xs rule: EncodeToString.induct) (auto simp: Let_def b64char_in)

lemma encodeURL_chars: "CHR ''/'' \<notin> set encodeURL" "CHR ''.'' \<notin> set encodeURL"
  by (simp_all add: encodeURL_def)

lemma EncodeToString_chars:
  "CHR ''/'' \<notin> set (EncodeToString xs)" "CHR ''.'' \<notin> set (EncodeToString xs)"
  using set_EncodeToString [of xs] encodeURL_chars by auto

lemma append_new_key: "map_of bk k = None \<Longrightarrow> bk @ [(k, v)] = AList.update k v bk"
  by (induction bk) (auto split: if_splits)

lemma flag_create [simp]: "(O_RDWR OR O_CREATE OR O_TRUNC) AND O_CREATE \<noteq> 0"
  "(O_RDWR OR O_CREATE OR O_TRUNC) AND O_TRUNC \<noteq> 0"
  "(O_RDWR OR O_CREATE OR O_TRUNC) AND O_RDWR \<noteq> 0"
  "O_RDONLY AND O_CREATE = 0" "O_RDONLY AND O_TRUNC = 0" "O_RDONLY AND O_RDWR = 0"
  "O_RDONLY AND O_WRONLY = 0"
  by (simp_all add: O_RDWR_def O_CREATE_def O_TRUNC_def O_RDONLY_def O_WRONLY_def)

lemma G_root: "getObfuscatedPath n L ''.'' = ret ''.''"
  by (cases n) (simp_all add: getObfuscatedPath_with_def)

lemma loadFilemap_cached:
  "cache s dir = Some m \<Longrightarrow> loadFilemap_with G L dir s = (Inr m, s)"
  by (simp add: loadFilemap_with_def)

lemma bk_Open_missing:
  "map_of bk ''.grainfs/filemap.json'' = None \<Longrightarrow> bk_Open bk ''.grainfs/filemap.json'' = Inl ErrNotExist"
  by (simp add: bk_Open_def bk_OpenFile_def bk_get_def Clean_filemapPath Let_def)

lemma loadFilemap_root_new:
  assumes "cache s ''.'' = None" and "map_of (underlying s) ''.grainfs/filemap.json'' = None"
      and "G ''.'' = ret ''.''"
  shows "loadFilemap_with G L ''.'' s = (Inr Map.empty, with_root Map.empty s)"
  using assms
  by (simp add: loadFilemap_with_def bind_def wrapE_def ret_def filemapPath_root
                bk_Open_missing IsNotExist_def with_root_def)

lemma loadFilemap_root:
  assumes "mounted s" and "G ''.'' = ret ''.''"
  shows "loadFilemap_with G L ''.'' s = (Inr (root_map s), with_root (root_map s) s)"
proof (cases "cache s ''.''")
  case None
  then show ?thesis
    using assms loadFilemap_root_new [of s G L] by (simp add: mounted_def root_map_def)
next
  case (Some m)
  then have "with_root m s = s" by (simp add: with_root_def fun_upd_idem)
  with Some show ?thesis by (simp add: loadFilemap_cached root_map_def)
qed

lemma ensureGrainFSDir_root:
  assumes "map_of (underlying s) ''.grainfs'' = Some BDir" and "G ''.'' = ret ''.''"
  shows "ensureGrainFSDir_with G ''.'' s = (Inr (), s)"
  using assms
  by (simp add: ensureGrainFSDir_with_def bind_def wrapE_def ret_def grainfsPath_root
                bk_MkdirAll_def bk_get_def Clean_grainfs Let_def)

lemma bk_Create_filemap:
  assumes "map_of bk ''.grainfs'' = Some BDir" and "map_of bk ''.grainfs/filemap.json'' \<noteq> Some BDir"
  shows "bk_Create bk ''.grainfs/filemap.json''
           = Inr (\<lparr>bname = ''.grainfs/filemap.json'', bpos = 0, bclosed = False\<rparr>,
                  AList.update ''.grainfs/filemap.json'' (BFile []) bk)"
proof (cases "map_of bk ''.grainfs/filemap.json''")
  case None
  then show ?thesis
    using assms(1)
    by (simp add: bk_Create_def bk_OpenFile_def bk_get_def Clean_filemapPath Let_def
                  bk_createParent_def ancestors_filemapPath is_file_def append_new_key)
next
  case (Some n)
  with assms(2) obtain c where "n = BFile c" by (cases n) auto
  with Some show ?thesis
    by (simp add: bk_Create_def bk_OpenFile_def bk_get_def Clean_filemapPath Let_def)
qed

lemma bfile_Write_fresh:
  "bfile_Write (AList.update k (BFile []) bk) \<lparr>bname = k, bpos = 0, bclosed = False\<rparr> p
     = Inr (\<lparr>bname = k, bpos = length p, bclosed = False\<rparr>, AList.update k (BFile p) bk)"
  by (simp add: bfile_Write_def bk_content_def update_conv' Let_def)

lemma saveFilemap_root:
  assumes "mounted s" and "G ''.'' = ret ''.''"
  shows "saveFilemap_with G L ''.'' m s = (Inr (), saved_root L m s)"
proof -
  obtain nonce g' where r: "rand_Read (entropy s) NonceSize = (nonce, g')"
    by (cases "rand_Read (entropy s) NonceSize")
  have enc: "encryptData L (entropy s) (masterKey s) (json_Marshal L m)
               = Inr (nonce @ gcm_Seal L (masterKey s) nonce (json_Marshal L m), g')"
    using assms(1) r by (simp add: encryptData_def aes_NewCipher_def mounted_def)
  show ?thesis
    using assms r
    by (simp add: saveFilemap_with_def enc bind_def wrapE_def ret_def filemapPath_root
                  mounted_def bk_Create_filemap bfile_Write_fresh saved_root_def)
qed

lemma mounted_with_root: "mounted s \<Longrightarrow> mounted (with_root m s)"
  by (simp add: mounted_def with_root_def)

lemma mounted_saved_root: "mounted s \<Longrightarrow> mounted (saved_root L m s)"
  by (simp add: mounted_def saved_root_def update_conv' split: prod.splits)

lemma root_map_with_root [simp]: "root_map (with_root m s) = m"
  by (simp add: root_map_def with_root_def)

lemma root_map_saved_root [simp]: "root_map (saved_root L m s) = m"
  by (simp add: root_map_def saved_root_def split: prod.splits)

lemma saved_root_with_root [simp]: "saved_root L m (with_root m' s) = saved_root L m s"
  by (simp add: saved_root_def with_root_def split: prod.splits)

lemma with_root_with_root [simp]: "with_root m (with_root m' s) = with_root m s"
  by (simp add: with_root_def)

lemma with_root_fields [simp]:
  "underlying (with_root m s) = underlying s" "masterKey (with_root m s) = masterKey s"
  "filenameKey (with_root m s) = filenameKey s" "entropy (with_root m s) = entropy s"
  by (simp_all add: with_root_def)

lemma saved_root_fields [simp]:
  "masterKey (saved_root L m s) = masterKey s" "filenameKey (saved_root L m s) = filenameKey s"
  "k \<noteq> ''.grainfs/filemap.json'' \<Longrightarrow> map_of (underlying (saved_root L m s)) k = map_of (underlying s) k"
  by (simp_all add: saved_root_def update_conv' split: prod.splits)

lemma updateFilemap_root:
  assumes "mounted s" and "G ''.'' = ret ''.''"
  shows "updateFilemap_with G L ''.'' original obf s
           = (Inr (), saved_root L ((root_map s)(obf \<mapsto> original)) s)"
proof -
  have e: "ensureGrainFSDir_with G ''.'' s = (Inr (), s)"
    using assms by (simp add: ensureGrainFSDir_root mounted_def)
  have l: "loadFilemap_with G L ''.'' s = (Inr (root_map s), with_root (root_map s) s)"
    using assms by (rule loadFilemap_root)
  let ?m = "(root_map s)(obf \<mapsto> original)"
  have c: "(with_root (root_map s) s)\<lparr>cache := (cache (with_root (root_map s) s))(''.'' \<mapsto> ?m)\<rparr>
             = with_root ?m s"
    by (simp add: with_root_def)
  have sv: "saveFilemap_with G L ''.'' ?m (with_root ?m s) = (Inr (), saved_root L ?m s)"
    using saveFilemap_root [where G = G and s = "with_root ?m s" and L = L and m = ?m]
          mounted_with_root [OF assms(1)] assms(2) by simp
  show ?thesis
    by (simp add: updateFilemap_with_def bind_def wrapE_def e l Let_def c sv)
qed

lemma collision_loop_free:
  assumes "mounted s" and "G ''.'' = ret ''.''" and "root_map s tok = None"
  shows "collision_loop (Suc k) G L ''.'' name obf tok counter s
           = (Inr (Inr tok), with_root (root_map s) s)"
  using assms by (simp add: loadFilemap_root)

lemma collision_loop_hit:
  assumes "mounted s" and "G ''.'' = ret ''.''" and "root_map s tok = Some name"
  shows "collision_loop (Suc k) G L ''.'' name obf tok counter s
           = (Inr (Inl tok), with_root (root_map s) s)"
  using assms by (simp add: loadFilemap_root)

lemma plain_name_not_sidecar:
  assumes "plain_name name"
  shows "name \<noteq> GrainFSDir" "\<not> HasPrefix name (GrainFSDir @ ''/'')"
proof -
  show "name \<noteq> GrainFSDir" using assms by (simp add: plain_name_def GrainFSDir_def)
  show "\<not> HasPrefix name (GrainFSDir @ ''/'')"
  proof
    assume "HasPrefix name (GrainFSDir @ ''/'')"
    then have "set (GrainFSDir @ ''/'') \<subseteq> set name"
      unfolding HasPrefix_def using set_take_subset [of "length (GrainFSDir @ ''/'')" name] by simp
    then have "CHR ''/'' \<in> set name" by auto
    with assms show False by (simp add: plain_name_def)
  qed
qed

lemma obfuscate_root:
  assumes "lib_ok L" and "mounted s" and "G ''.'' = ret ''.''"
      and "plain_name name" and "length name \<le> 102"
      and "root_map s (encoded_token L (filenameKey s) name) = None
           \<or> root_map s (encoded_token L (filenameKey s) name) = Some name"
  shows "GrainFS_obfuscateFilename_with (Suc k) G L ''.'' name s
           = (Inr (encoded_token L (filenameKey s) name), mapped_root L name s)"
proof -
  let ?tok = "encoded_token L (filenameKey s) name"
  have ne: "name \<noteq> []" using assms(4) by (simp add: plain_name_def)
  have o: "obfuscateFilename L (filenameKey s) name = Inr ?tok"
    using obfuscateFilename_result [OF assms(1) _ ne, of "filenameKey s"] assms(2,5)
    by (simp add: mounted_def)
  note ns = plain_name_not_sidecar [OF assms(4)]
  show ?thesis
  proof (cases "root_map s ?tok = Some name")
    case True
    then show ?thesis
      using ne ns
      using assms(2,3)
      by (simp add: GrainFS_obfuscateFilename_with_def o mapped_root_def
                    collision_loop_hit del: collision_loop.simps)
  next
    case False
    with assms(6) have f: "root_map s ?tok = None" by simp
    have u: "updateFilemap_with G L ''.'' name ?tok (with_root (root_map s) s)
               = (Inr (), saved_root L ((root_map s)(?tok \<mapsto> name)) s)"
      using updateFilemap_root [where G = G and s = "with_root (root_map s) s"]
            mounted_with_root [OF assms(2)] assms(3)
      by simp
    show ?thesis
      using ne ns False assms(2,3) f
      by (simp add: GrainFS_obfuscateFilename_with_def o mapped_root_def
                    collision_loop_free u bind_def wrapE_def ret_def
               del: collision_loop.simps)
  qed
qed

lemma token_chars:
  "CHR ''/'' \<notin> set (encoded_token L k n)" "CHR ''.'' \<notin> set (encoded_token L k n)"
  by (simp_all add: encoded_token_def Let_def EncodeToString_chars)

lemma token_nonempty: "lib_ok L \<Longrightarrow> encoded_token L k n \<noteq> []"
proof -
  assume "lib_ok L"
  then have "length (encoded_token L k n) = 4 * ((length n + 50) div 3)"
    by (rule length_encoded_token)
  moreover have "0 < 4 * ((length n + 50) div 3)" by arith
  ultimately show ?thesis by auto
qed

lemma token_plain: "lib_ok L \<Longrightarrow> plain_name (encoded_token L k n)"
  using token_chars [of L k n] token_nonempty [of L k n]
  by (auto simp: plain_name_def)

lemma plain_Clean: "plain_name t \<Longrightarrow> Clean t = t"
  by (simp add: plain_name_def Clean_simple)

lemma plain_Join: "plain_name t \<Longrightarrow> Join [''.'', t] = t" "plain_name t \<Longrightarrow> Join [t] = t"
  by (simp_all add: plain_name_def Join_dot Join_single)

lemma plain_Dir_Base: "plain_name t \<Longrightarrow> Dir t = ''.''" "plain_name t \<Longrightarrow> Base t = t"
  by (simp_all add: plain_name_def Dir_simple Base_simple)

lemma token_not_reserved:
  "encoded_token L k n \<noteq> ''.grainfs/filemap.json''" "encoded_token L k n \<noteq> ''.grainfs''"
  using token_chars(2) [of L k n] by auto

lemma mounted_mapped_root: "mounted s \<Longrightarrow> mounted (mapped_root L name s)"
  by (simp add: mapped_root_def Let_def mounted_with_root mounted_saved_root)

lemma root_map_mapped_root:
  "root_map (mapped_root L name s)
     = (root_map s)(encoded_token L (filenameKey s) name \<mapsto> name)"
  by (auto simp: mapped_root_def Let_def fun_upd_idem)

lemma mapped_root_fields [simp]:
  "masterKey (mapped_root L name s) = masterKey s"
  "filenameKey (mapped_root L name s) = filenameKey s"
  "k \<noteq> ''.grainfs/filemap.json'' \<Longrightarrow>
     map_of (underlying (mapped_root L name s)) k = map_of (underlying s) k"
  by (simp_all add: mapped_root_def Let_def)

lemma inner_Suc: "inner (Suc n) L = getObfuscatedPath n L"
  by (simp add: inner_def)

lemma GrainFS_obfuscateFilename_root:
  assumes "lib_ok L" and "mounted s" and "plain_name name" and "length name \<le> 102"
      and "root_map s (encoded_token L (filenameKey s) name) = None
           \<or> root_map s (encoded_token L (filenameKey s) name) = Some name"
  shows "GrainFS_obfuscateFilename (Suc n) L ''.'' name s
           = (Inr (encoded_token L (filenameKey s) name), mapped_root L name s)"
  unfolding GrainFS_obfuscateFilename_def inner_Suc
  using assms by (simp add: obfuscate_root G_root del: getObfuscatedPath.simps)

lemma getObfuscatedPath_root:
  assumes "lib_ok L" and "mounted s" and "plain_name name" and "length name \<le> 102"
      and "root_map s (encoded_token L (filenameKey s) name) = None
           \<or> root_map s (encoded_token L (filenameKey s) name) = Some name"
  shows "getObfuscatedPath (Suc n) L name s
           = (Inr (encoded_token L (filenameKey s) name), mapped_root L name s)"
proof -
  let ?tok = "encoded_token L (filenameKey s) name"
  have o: "GrainFS_obfuscateFilename_with (Suc (Suc n)) (getObfuscatedPath n L) L ''.'' name s
             = (Inr ?tok, mapped_root L name s)"
    using assms by (simp add: obfuscate_root G_root del: getObfuscatedPath.simps)
  have n: "name \<noteq> []" "name \<noteq> ''.''" "Clean name = name" "Split name = [name]"
    using assms(3) by (simp_all add: plain_name_def Clean_simple Split_noslash)
  show ?thesis
    using n
    by (simp add: getObfuscatedPath_with_def bind_def ret_def o
                  plain_Join [OF token_plain [OF assms(1)]])
qed

lemma openFileInternal_mode:
  assumes "openFileInternal n L filename flag s = (Inr f, s')"
  shows "isWriteMode f = (flag AND O_WRONLY \<noteq> 0 \<or> flag AND O_RDWR \<noteq> 0)" and "\<not> closed f"
    and "encryptingWriter f = None" and "\<not> readInitialized f"
proof -
  obtain m where o: "openFileInternal n L filename flag = bind m (\<lambda>obfuscatedPath s.
                case bk_OpenFile (underlying s) obfuscatedPath flag of
                  Inl err \<Rightarrow> (Inl err, s)
                | Inr (underlyingFile, bk') \<Rightarrow>
                    (Inr \<lparr>handle = underlyingFile, ef_filename = filename,
                          ef_obfuscated = obfuscatedPath, ef_flag = flag,
                          isWriteMode = (flag AND O_WRONLY \<noteq> 0 \<or> flag AND O_RDWR \<noteq> 0),
                          isTempFile = False, decryptingReader = None, readInitialized = False,
                          encryptingWriter = None, closed = False\<rparr>,
                     s\<lparr>underlying := bk'\<rparr>))"
    using assms by (cases "filename = []") (auto simp: openFileInternal_def throw_def Let_def)
  from assms have
    "isWriteMode f = (flag AND O_WRONLY \<noteq> 0 \<or> flag AND O_RDWR \<noteq> 0) \<and> \<not> closed f
       \<and> encryptingWriter f = None \<and> \<not> readInitialized f"
    unfolding o bind_def by (auto split: sum.splits prod.splits)
  then show "isWriteMode f = (flag AND O_WRONLY \<noteq> 0 \<or> flag AND O_RDWR \<noteq> 0)" and "\<not> closed f"
    and "encryptingWriter f = None" and "\<not> readInitialized f"
    by simp_all
qed

lemma Read_write_mode:
  "isWriteMode f \<Longrightarrow> \<not> closed f \<Longrightarrow>
     EncryptedFile_Read L t f len_p = (([], Some (Errorf ''file opened for writing'')), f)"
  by (simp add: EncryptedFile_Read_def)

lemma ReadAt_write_mode:
  "isWriteMode f \<Longrightarrow> \<not> closed f \<Longrightarrow>
     EncryptedFile_ReadAt L t f len_p off = (([], Some (Errorf ''file opened for writing'')), f)"
  by (simp add: EncryptedFile_ReadAt_def)

lemma Write_read_mode:
  "\<not> isWriteMode f \<Longrightarrow> \<not> closed f \<Longrightarrow>
     EncryptedFile_Write L f p t = (((0, Some (Errorf ''file not opened for writing'')), f), t)"
  by (simp add: EncryptedFile_Write_def)

section \<open>\<open>ReadAt\<close> and the sequential cursor\<close>

lemma io_ReadFull_handle:
  "io_ReadFull bk h n = (r, h') \<Longrightarrow> bname h' = bname h \<and> bclosed h' = bclosed h"
  by (auto simp: io_ReadFull_def Let_def split: if_splits)

lemma io_ReadAll_handle:
  "io_ReadAll bk h = (r, h') \<Longrightarrow> bname h' = bname h \<and> bclosed h' = bclosed h"
  by (auto simp: io_ReadAll_def Let_def split: if_splits)

lemma DecryptingReader_initialize_handle:
  assumes "DecryptingReader_initialize L bk dr h = (e, dr', h')"
  shows "bname h' = bname h \<and> bclosed h' = bclosed h"
proof -
  obtain r1 h1 where 1: "io_ReadFull bk h NonceSize = (r1, h1)" by (cases "io_ReadFull bk h NonceSize")
  obtain r2 h2 where 2: "io_ReadAll bk h1 = (r2, h2)" by (cases "io_ReadAll bk h1")
  note a = io_ReadFull_handle [OF 1] io_ReadAll_handle [OF 2]
  show ?thesis
    using assms a unfolding DecryptingReader_initialize_def 1
    by (cases r1; cases "snd r1") (auto simp: 2 Let_def split: sum.splits option.splits)
qed

lemma DecryptingReader_Read_handle:
  assumes "DecryptingReader_Read L bk dr h n = (r, dr', h')"
  shows "bname h' = bname h \<and> bclosed h' = bclosed h"
proof (cases "dr_initialized dr")
  case True
  with assms show ?thesis
    by (auto simp: DecryptingReader_Read_def Let_def split: if_splits)
next
  case False
  obtain e dr1 h1 where 1: "DecryptingReader_initialize L bk dr h = (e, dr1, h1)"
    by (cases "DecryptingReader_initialize L bk dr h")
  note a = DecryptingReader_initialize_handle [OF 1]
  show ?thesis
    using assms False a unfolding DecryptingReader_Read_def 1
    by (cases e) (auto simp: Let_def split: if_splits)
qed

lemma initializeReader_handle:
  assumes "initializeReader L s f = (e, f')"
  shows "bname (handle f') = bname (handle f) \<and> bclosed (handle f') = bclosed (handle f)"
proof (cases "bfile_Seek0 (handle f)")
  case (Inl a)
  with assms show ?thesis by (simp add: initializeReader_def)
next
  case (Inr h0)
  then have h0: "bname h0 = bname (handle f)" "bclosed h0 = bclosed (handle f)"
    by (auto simp: bfile_Seek0_def split: if_splits)
  show ?thesis
  proof (cases "NewDecryptingReader (masterKey s)")
    case (Inl a)
    with assms Inr h0 show ?thesis by (auto simp: initializeReader_def)
  next
    case (Inr dr)
    obtain r dr1 h1 where 1: "DecryptingReader_Read L (underlying s) dr h0 1 = (r, dr1, h1)"
      by (cases "DecryptingReader_Read L (underlying s) dr h0 1")
    note a = DecryptingReader_Read_handle [OF 1]
    show ?thesis
      using assms \<open>bfile_Seek0 (handle f) = Inr h0\<close> Inr 1 a h0
      by (cases r) (auto simp: initializeReader_def split: if_splits)
  qed
qed

lemma initializeReader_shape:
  assumes "initializeReader L s f = (e, f')" and "bfile_Seek0 (handle f) = Inr h0"
  shows "\<exists>a b. f' = f\<lparr>handle := a, decryptingReader := b\<rparr>"
proof (cases "NewDecryptingReader (masterKey s)")
  case (Inl a)
  with assms show ?thesis by (auto simp: initializeReader_def)
next
  case (Inr dr)
  obtain r dr1 h1 where 1: "DecryptingReader_Read L (underlying s) dr h0 1 = (r, dr1, h1)"
    by (cases "DecryptingReader_Read L (underlying s) dr h0 1")
  show ?thesis
    using assms Inr 1 by (cases r) (auto simp: initializeReader_def split: if_splits)
qed

lemma initializeReader_upd:
  assumes "bfile_Seek0 (handle f) = Inr h0" and "bfile_Seek0 a = Inr h0"
  shows "initializeReader L s (f\<lparr>handle := a, decryptingReader := b\<rparr>) = initializeReader L s f"
  using assms by (simp add: initializeReader_def split: sum.splits prod.splits)

lemma initializeReader_idem:
  "initializeReader L s (snd (initializeReader L s f)) = initializeReader L s f"
proof (cases "bfile_Seek0 (handle f)")
  case (Inl a)
  then show ?thesis by (simp add: initializeReader_def)
next
  case (Inr h0)
  obtain e f' where i: "initializeReader L s f = (e, f')"
    by (cases "initializeReader L s f")
  from initializeReader_handle [OF i]
  have "bfile_Seek0 (handle f') = bfile_Seek0 (handle f)"
    by (cases "handle f"; cases "handle f'") (simp add: bfile_Seek0_def)
  with Inr have s0: "bfile_Seek0 (handle f') = Inr h0" by simp
  from initializeReader_shape [OF i Inr] obtain a b
    where f': "f' = f\<lparr>handle := a, decryptingReader := b\<rparr>" by blast
  have "initializeReader L s f' = initializeReader L s f"
    unfolding f' using s0 Inr by (intro initializeReader_upd) (simp_all add: f')
  then show ?thesis by (simp add: i)
qed

lemma initializeReader_frame:
  assumes "initializeReader L s f = (e, f')"
  shows "closed f' = closed f" "isWriteMode f' = isWriteMode f" "readInitialized f' = readInitialized f"
proof -
  have "closed f' = closed f \<and> isWriteMode f' = isWriteMode f \<and> readInitialized f' = readInitialized f"
  proof (cases "bfile_Seek0 (handle f)")
    case (Inl a)
    with assms show ?thesis by (simp add: initializeReader_def)
  next
    case (Inr h0)
    from initializeReader_shape [OF assms Inr] show ?thesis by auto
  qed
  then show "closed f' = closed f" "isWriteMode f' = isWriteMode f" "readInitialized f' = readInitialized f"
    by simp_all
qed

lemma ReadAt_initialized:
  "readInitialized f \<Longrightarrow> snd (EncryptedFile_ReadAt L s f len_p off) = f"
  by (simp add: EncryptedFile_ReadAt_def Let_def split: option.splits prod.splits)

text \<open>
  C10. Whatever the handle, the buffer length and the offset, a \<open>Read\<close> that follows a
  \<open>ReadAt\<close> returns what it would have returned without the \<open>ReadAt\<close> and leaves the
  handle in the same state: \<open>ReadAt\<close> does not move the cursor of \<open>Read\<close>.
\<close>

theorem ReadAt_keeps_cursor:
  "EncryptedFile_Read L s (snd (EncryptedFile_ReadAt L s f len_p off)) n = EncryptedFile_Read L s f n"
proof (cases "closed f \<or> isWriteMode f \<or> readInitialized f")
  case True
  then show ?thesis
    by (auto simp: EncryptedFile_ReadAt_def Let_def split: option.splits prod.splits)
next
  case False
  obtain e f' where i: "initializeReader L s f = (e, f')"
    by (cases "initializeReader L s f")
  note fr = initializeReader_frame [OF i]
  show ?thesis
  proof (cases e)
    case None
    have "snd (EncryptedFile_ReadAt L s f len_p off) = f'\<lparr>readInitialized := True\<rparr>"
      using False i None
      by (simp add: EncryptedFile_ReadAt_def Let_def split: option.splits prod.splits)
    then show ?thesis
      using False i None fr by (simp add: EncryptedFile_Read_def)
  next
    case (Some err)
    have r: "snd (EncryptedFile_ReadAt L s f len_p off) = f'"
      using False i Some by (simp add: EncryptedFile_ReadAt_def)
    have "initializeReader L s f' = (e, f')"
      using initializeReader_idem [of L s f] i by simp
    then show ?thesis
      using False i Some fr by (simp add: r EncryptedFile_Read_def)
  qed
qed

lemma mounted_ref_volume: "mounted ref_volume"
  by (simp add: mounted_def ref_volume_def)

lemma root_map_ref_volume: "root_map ref_volume = Map.empty"
  by (simp add: root_map_def ref_volume_def)

lemma bk_OpenFile_create:
  assumes "plain_name t" and "map_of bk t \<noteq> Some BDir"
  shows "bk_OpenFile bk t (O_RDWR OR O_CREATE OR O_TRUNC)
           = Inr (\<lparr>bname = t, bpos = 0, bclosed = False\<rparr>, AList.update t (BFile []) bk)"
proof (cases "map_of bk t")
  case None
  then show ?thesis
    using assms(1)
    by (simp add: bk_OpenFile_def bk_get_def plain_Clean Let_def plain_name_def
                  bk_createParent_def ancestors_simple append_new_key)
next
  case (Some n)
  with assms(2) obtain c where "n = BFile c" by (cases n) auto
  with Some show ?thesis
    using assms(1) by (simp add: bk_OpenFile_def bk_get_def plain_Clean Let_def plain_name_def)
qed

lemma bk_OpenFile_read:
  assumes "plain_name t" and "map_of bk t = Some (BFile c)"
  shows "bk_OpenFile bk t O_RDONLY = Inr (\<lparr>bname = t, bpos = 0, bclosed = False\<rparr>, bk)"
  using assms by (simp add: bk_OpenFile_def bk_get_def plain_Clean Let_def plain_name_def)





lemma Open_root:
  assumes "lib_ok L" and "mounted s" and "plain_name name" and "length name \<le> 102"
      and "root_map s (encoded_token L (filenameKey s) name) = None
           \<or> root_map s (encoded_token L (filenameKey s) name) = Some name"
      and "map_of (underlying s) (encoded_token L (filenameKey s) name) = Some (BFile c)"
  shows "Open (Suc n) L name s
           = (Inr (new_file name (encoded_token L (filenameKey s) name) O_RDONLY),
              mapped_root L name s)"
proof -
  note g = getObfuscatedPath_root [OF assms(1-5), of n]
  have "bk_OpenFile (underlying (mapped_root L name s)) (encoded_token L (filenameKey s) name) O_RDONLY
          = Inr (\<lparr>bname = encoded_token L (filenameKey s) name, bpos = 0, bclosed = False\<rparr>,
                 underlying (mapped_root L name s))"
    using assms(6) token_not_reserved(1) [of L "filenameKey s" name]
    by (intro bk_OpenFile_read [where c = c] token_plain [OF assms(1)]) simp
  moreover have "name \<noteq> []" using assms(3) by (simp add: plain_name_def)
  ultimately show ?thesis
    by (simp add: Open_def OpenFile_def openFileInternal_def bind_def wrapE_def g new_file_def
             del: getObfuscatedPath.simps)
qed

lemma Create_root:
  assumes "lib_ok L" and "mounted s" and "plain_name name" and "length name \<le> 102"
      and "root_map s (encoded_token L (filenameKey s) name) = None
           \<or> root_map s (encoded_token L (filenameKey s) name) = Some name"
      and "map_of (underlying s) (encoded_token L (filenameKey s) name) \<noteq> Some BDir"
  shows "Create (Suc n) L name s
           = (Inr (new_file name (encoded_token L (filenameKey s) name) (O_RDWR OR O_CREATE OR O_TRUNC)),
              put_file (encoded_token L (filenameKey s) name) [] (mapped_root L name s))"
proof -
  let ?tok = "encoded_token L (filenameKey s) name"
  note o = GrainFS_obfuscateFilename_root [OF assms(1-5), of n]
  have b: "bk_OpenFile (underlying (mapped_root L name s)) ?tok (O_RDWR OR O_CREATE OR O_TRUNC)
          = Inr (\<lparr>bname = ?tok, bpos = 0, bclosed = False\<rparr>,
                 AList.update ?tok (BFile []) (underlying (mapped_root L name s)))"
    using assms(6) token_not_reserved(1) [of L "filenameKey s" name]
    by (intro bk_OpenFile_create token_plain [OF assms(1)]) simp
  have n: "name \<noteq> []" "name \<noteq> ''.''" "Dir name = ''.''" "Base name = name"
    using assms(3) by (simp_all add: plain_name_def plain_Dir_Base)
  show ?thesis
    using n
    by (simp add: Create_def OpenFile_def openFileInternal_def bind_def wrapE_def ret_def o b
                  G_root new_file_def put_file_def Let_def
                  plain_Join [OF token_plain [OF assms(1)]]
             del: getObfuscatedPath.simps)
qed

lemma token_neq_dotted: "CHR ''.'' \<in> set x \<Longrightarrow> encoded_token L k n \<noteq> x"
  using token_chars(2) [of L k n] by auto

lemma ref_volume_free: "map_of (underlying ref_volume) (encoded_token L k n) = None"
  by (simp add: ref_volume_def token_neq_dotted)

lemma length_rand_Read: "length (fst (rand_Read g n)) = n"
  by (simp add: rand_Read_def)

lemma decryptData_sealed:
  assumes "lib_ok L" and "length key = 32" and "length nonce = 12"
  shows "decryptData L key (nonce @ gcm_Seal L key nonce p) = Inr p"
proof -
  have "length (gcm_Seal L key nonce p) = length p + 16"
    and "gcm_Open L key nonce (gcm_Seal L key nonce p) = Some p"
    using assms(1) by (simp_all add: lib_ok_def)
  then show ?thesis
    using assms(2,3)
    by (simp add: decryptData_def NonceSize_def TagSize_def aes_NewCipher_def Let_def)
qed

section \<open>Looking a path up changes the filemap\<close>



section \<open>Handles are readable or writable, never both\<close>

text \<open>
  C9. A handle opened with \<open>O_RDWR\<close> in its flags, and so every handle that \<open>Create\<close>
  returns, is in write mode: while it is open, \<open>Read\<close> and \<open>ReadAt\<close> fail with
  "file opened for writing" and leave it as it was. Whatever the handle, it is either in
  write mode or \<open>Write\<close> on it fails with "file not opened for writing": no open handle
  serves both.
\<close>

theorem read_write_handle_is_write_only:
  assumes "(OpenFile n L name fl s = (Inr f, s') \<and> fl AND O_RDWR \<noteq> 0)
           \<or> Create n L name s = (Inr f, s')"
  shows "isWriteMode f \<and> \<not> closed f
         \<and> EncryptedFile_Read L t f len_p = (([], Some (Errorf ''file opened for writing'')), f)
         \<and> EncryptedFile_ReadAt L t f len_p off = (([], Some (Errorf ''file opened for writing'')), f)
         \<and> (\<forall>g p u. closed g \<or> \<not> isWriteMode g
               \<or> EncryptedFile_Read L u g p = (([], Some (Errorf ''file opened for writing'')), g))
         \<and> (\<forall>g p u. closed g \<or> isWriteMode g
               \<or> EncryptedFile_Write L g p u = (((0, Some (Errorf ''file not opened for writing'')), g), u))"
proof -
  from assms obtain fl' where o: "openFileInternal n L name fl' s = (Inr f, s')"
    and fl: "fl' AND O_RDWR \<noteq> 0"
    using flag_create(3) by (auto simp: Create_def OpenFile_def)
  have w: "isWriteMode f" "\<not> closed f"
    using openFileInternal_mode(1,2) [OF o] fl by simp_all
  show ?thesis
    using w by (auto simp: Read_write_mode ReadAt_write_mode Write_read_mode)
qed

theorem read_write_handle_is_write_only_witness:
  "\<exists>f s'. Create 1 ref_lib ''a'' ref_volume = (Inr f, s') \<and> isWriteMode f
        \<and> EncryptedFile_Read ref_lib s' f 1 = (([], Some (Errorf ''file opened for writing'')), f)"
proof -
  have p: "plain_name ''a''" by (simp add: plain_name_def)
  have l: "length ''a'' \<le> 102" by simp
  have r: "root_map ref_volume (encoded_token ref_lib (filenameKey ref_volume) ''a'') = None
           \<or> root_map ref_volume (encoded_token ref_lib (filenameKey ref_volume) ''a'') = Some ''a''"
    by (simp add: root_map_ref_volume)
  have d: "map_of (underlying ref_volume) (encoded_token ref_lib (filenameKey ref_volume) ''a'') \<noteq> Some BDir"
    by (simp add: ref_volume_free)
  note c = Create_root [OF ref_lib_ok mounted_ref_volume p l r d, of 0, unfolded One_nat_def [symmetric]]
  from read_write_handle_is_write_only [OF disjI2, OF c] c
  show ?thesis by blast
qed

section \<open>Writing through the envelope and reading back\<close>

lemma bfile_Write_at:
  assumes "map_of bk k = Some (BFile old)" and "length old = p0"
  shows "bfile_Write bk \<lparr>bname = k, bpos = p0, bclosed = False\<rparr> p
           = Inr (\<lparr>bname = k, bpos = p0 + length p, bclosed = False\<rparr>, AList.update k (BFile (old @ p)) bk)"
  using assms by (simp add: bfile_Write_def bk_content_def Let_def)

lemma Write_new_file:
  assumes "length (masterKey s) = 32" and "map_of (underlying s) tok = Some (BFile [])"
      and "fl AND O_RDWR \<noteq> 0" and "rand_Read (entropy s) NonceSize = (nonce, g')"
  shows "EncryptedFile_Write L (new_file name tok fl) p s
           = (((length p, None),
               (new_file name tok fl)
                 \<lparr>handle := \<lparr>bname = tok, bpos = 12, bclosed = False\<rparr>,
                  encryptingWriter := Some \<lparr>ew_gcm = masterKey s, ew_nonce = nonce, ew_buffer = p\<rparr>\<rparr>),
              put_file tok nonce (s\<lparr>entropy := g'\<rparr>))"
proof -
  have n: "length nonce = 12"
    using assms(4) length_rand_Read [of "entropy s" NonceSize] by (simp add: NonceSize_def)
  have w: "bfile_Write (underlying s) \<lparr>bname = tok, bpos = 0, bclosed = False\<rparr> nonce
             = Inr (\<lparr>bname = tok, bpos = 12, bclosed = False\<rparr>,
                    AList.update tok (BFile nonce) (underlying s))"
    using bfile_Write_at [OF assms(2), of 0 nonce] n by simp
  show ?thesis
    using assms(1,3,4)
    by (simp add: EncryptedFile_Write_def new_file_def NewEncryptingWriter_def aes_NewCipher_def
                  w EncryptingWriter_Write_def put_file_def)
qed

lemma Close_written:
  assumes "\<not> closed f" and "encryptingWriter f = Some ew"
      and "handle f = \<lparr>bname = tok, bpos = length old, bclosed = False\<rparr>"
      and "map_of (underlying s) tok = Some (BFile old)"
  shows "\<exists>f'. EncryptedFile_Close L f s
           = ((None, f'),
              put_file tok (old @ gcm_Seal L (ew_gcm ew) (ew_nonce ew) (ew_buffer ew)) s)"
proof -
  let ?enc = "gcm_Seal L (ew_gcm ew) (ew_nonce ew) (ew_buffer ew)"
  have e: "(if length (ew_buffer ew) = 0 then gcm_Seal L (ew_gcm ew) (ew_nonce ew) [] else ?enc) = ?enc"
    by simp
  have w: "bfile_Write (underlying s) (handle f) ?enc
             = Inr (\<lparr>bname = tok, bpos = length old + length ?enc, bclosed = False\<rparr>,
                    AList.update tok (BFile (old @ ?enc)) (underlying s))"
    unfolding assms(3) using bfile_Write_at [OF assms(4) refl] by simp
  show ?thesis
    using assms(1,2)
    by (simp add: EncryptedFile_Close_def EncryptingWriter_Close_def e w bfile_Close_def
                  put_file_def del: length_0_conv)
qed

lemma Close_unwritten:
  "\<exists>f'. EncryptedFile_Close L (new_file name tok fl) s = ((None, f'), s)"
  by (simp add: EncryptedFile_Close_def new_file_def bfile_Close_def)

text \<open>Reading: the first \<open>Read\<close> decrypts the whole file.\<close>

lemma io_ReadFull_nonce:
  assumes "bk_content bk k = nonce @ rest" and "length nonce = 12"
  shows "io_ReadFull bk \<lparr>bname = k, bpos = 0, bclosed = False\<rparr> NonceSize
           = ((nonce, None), \<lparr>bname = k, bpos = 12, bclosed = False\<rparr>)"
  using assms by (simp add: io_ReadFull_def NonceSize_def Let_def)

lemma io_ReadAll_rest:
  assumes "bk_content bk k = nonce @ rest" and "length nonce = 12"
  shows "io_ReadAll bk \<lparr>bname = k, bpos = 12, bclosed = False\<rparr>
           = (Inr rest, \<lparr>bname = k, bpos = 12 + length rest, bclosed = False\<rparr>)"
  using assms by (simp add: io_ReadAll_def Let_def)

lemma initializeReader_sealed:
  assumes "lib_ok L" and "length (masterKey s) = 32"
      and "bk_content (underlying s) tok = nonce @ gcm_Seal L (masterKey s) nonce plain"
      and "length nonce = 12" and "fl AND O_RDWR = 0" and "fl AND O_WRONLY = 0"
  shows "\<exists>f'. initializeReader L s (new_file name tok fl) = (None, f')
             \<and> ready (f'\<lparr>readInitialized := True\<rparr>) plain 0"
proof -
  have o: "gcm_Open L (masterKey s) nonce (gcm_Seal L (masterKey s) nonce plain) = Some plain"
    using assms(1) by (simp add: lib_ok_def)
  have i: "DecryptingReader_initialize L (underlying s)
             \<lparr>dr_gcm = masterKey s, dr_nonce = [], dr_decrypted = [], dr_pos = 0, dr_initialized = False\<rparr>
             \<lparr>bname = tok, bpos = 0, bclosed = False\<rparr>
           = (None, \<lparr>dr_gcm = masterKey s, dr_nonce = nonce, dr_decrypted = plain, dr_pos = 0,
                      dr_initialized = False\<rparr>,
              \<lparr>bname = tok, bpos = 12 + length (gcm_Seal L (masterKey s) nonce plain), bclosed = False\<rparr>)"
    by (simp add: DecryptingReader_initialize_def io_ReadFull_nonce [OF assms(3,4)]
                  io_ReadAll_rest [OF assms(3,4)] o)
  show ?thesis
    using assms(2,5,6)
    by (simp add: initializeReader_def new_file_def bfile_Seek0_def NewDecryptingReader_def
                  aes_NewCipher_def DecryptingReader_Read_def i ready_def Let_def)
qed

lemma Read_ready:
  assumes "ready f plain p"
  shows "\<exists>f'. EncryptedFile_Read L s f n
               = ((if length plain - p = 0 then ([], Some EOF)
                   else (take (min n (length plain - p)) (drop p plain), None)), f')
             \<and> ready f' plain (if length plain - p = 0 then p else p + min n (length plain - p))"
proof -
  from assms obtain dr where d: "decryptingReader f = Some dr" "dr_initialized dr"
      "dr_decrypted dr = plain" "dr_pos dr = p"
    and f: "\<not> closed f" "\<not> isWriteMode f" "readInitialized f"
    by (auto simp: ready_def)
  show ?thesis
    using d f
    by (auto simp: EncryptedFile_Read_def DecryptingReader_Read_def Let_def ready_def min_def)
qed


lemma put_file_fields [simp]:
  "masterKey (put_file k c s) = masterKey s" "filenameKey (put_file k c s) = filenameKey s"
  "cache (put_file k c s) = cache s" "entropy (put_file k c s) = entropy s"
  "root_map (put_file k c s) = root_map s"
  "map_of (underlying (put_file k c s)) k = Some (BFile c)"
  "k' \<noteq> k \<Longrightarrow> map_of (underlying (put_file k c s)) k' = map_of (underlying s) k'"
  by (simp_all add: put_file_def root_map_def update_conv')

lemma put_file_put_file [simp]: "put_file k c (put_file k c' s) = put_file k c s"
  by (simp add: put_file_def update_last)

lemma mounted_put_file:
  "mounted s \<Longrightarrow> k \<noteq> ''.grainfs'' \<Longrightarrow> k \<noteq> ''.grainfs/filemap.json'' \<Longrightarrow> mounted (put_file k c s)"
  by (simp add: mounted_def)

lemma entropy_update_fields [simp]:
  "mounted (s\<lparr>entropy := g\<rparr>) = mounted s" "root_map (s\<lparr>entropy := g\<rparr>) = root_map s"
  by (simp_all add: mounted_def root_map_def)

lemma bk_content_put_file [simp]: "bk_content (underlying (put_file k c s)) k = c"
  by (simp add: bk_content_def)

lemma Read_uninitialized:
  assumes "initializeReader L s f = (None, f')"
      and "\<not> closed f" and "\<not> isWriteMode f" and "\<not> readInitialized f"
  shows "EncryptedFile_Read L s f n = EncryptedFile_Read L s (f'\<lparr>readInitialized := True\<rparr>) n"
  using assms initializeReader_frame [OF assms(1)]
  by (simp add: EncryptedFile_Read_def)



section \<open>The round trip of file contents\<close>

lemma create_write_close_root:
  assumes "lib_ok L" and "mounted s" and "plain_name name" and "length name \<le> 102"
      and "root_map s (encoded_token L (filenameKey s) name) = None
           \<or> root_map s (encoded_token L (filenameKey s) name) = Some name"
      and "map_of (underlying s) (encoded_token L (filenameKey s) name) \<noteq> Some BDir"
  shows "\<exists>s1 nonce. create_write_close (Suc n) L name data s = (Inr (), s1)
           \<and> mounted s1 \<and> masterKey s1 = masterKey s \<and> filenameKey s1 = filenameKey s
           \<and> root_map s1 = (root_map s)(encoded_token L (filenameKey s) name \<mapsto> name)
           \<and> length nonce = 12
           \<and> map_of (underlying s1) (encoded_token L (filenameKey s) name)
               = Some (BFile (nonce @ gcm_Seal L (masterKey s) nonce data))"
proof -
  let ?tok = "encoded_token L (filenameKey s) name"
  let ?fl = "O_RDWR OR O_CREATE OR O_TRUNC"
  let ?sA = "put_file ?tok [] (mapped_root L name s)"
  have c: "Create (Suc n) L name s = (Inr (new_file name ?tok ?fl), ?sA)"
    by (rule Create_root [OF assms])
  note tr = token_not_reserved [of L "filenameKey s" name]
  have mA: "mounted ?sA"
    using tr by (intro mounted_put_file mounted_mapped_root assms(2)) simp_all
  obtain nonce g' where r: "rand_Read (entropy ?sA) NonceSize = (nonce, g')"
    by (cases "rand_Read (entropy ?sA) NonceSize")
  have n: "length nonce = 12"
    using r length_rand_Read [of "entropy ?sA" NonceSize] by (simp add: NonceSize_def)
  let ?f1 = "(new_file name ?tok ?fl)
                 \<lparr>handle := \<lparr>bname = ?tok, bpos = 12, bclosed = False\<rparr>,
                  encryptingWriter := Some \<lparr>ew_gcm = masterKey ?sA, ew_nonce = nonce, ew_buffer = data\<rparr>\<rparr>"
  let ?sB = "put_file ?tok nonce (?sA\<lparr>entropy := g'\<rparr>)"
  have w: "EncryptedFile_Write L (new_file name ?tok ?fl) data ?sA = (((length data, None), ?f1), ?sB)"
    using mA r by (intro Write_new_file) (simp_all add: mounted_def O_RDWR_def)
  have "\<exists>f'. EncryptedFile_Close L ?f1 ?sB
           = ((None, f'), put_file ?tok (nonce @ gcm_Seal L (masterKey ?sA) nonce data) ?sB)"
    using Close_written [of ?f1 "\<lparr>ew_gcm = masterKey ?sA, ew_nonce = nonce, ew_buffer = data\<rparr>"
                            ?tok nonce ?sB L] n
    by (simp add: new_file_def)
  then obtain f' where cl: "EncryptedFile_Close L ?f1 ?sB
           = ((None, f'), put_file ?tok (nonce @ gcm_Seal L (masterKey s) nonce data) ?sB)"
    by auto
  let ?sC = "put_file ?tok (nonce @ gcm_Seal L (masterKey s) nonce data) ?sB"
  have mC: "mounted ?sC"
    using tr mA by (intro mounted_put_file) simp_all
  have "create_write_close (Suc n) L name data s = (Inr (), ?sC)"
    unfolding create_write_close_def by (simp only: c w cl prod.case sum.case option.case)
  moreover have "root_map ?sC = (root_map s)(?tok \<mapsto> name)"
    by (simp add: root_map_mapped_root)
  ultimately show ?thesis
    using mC n by (intro exI [of _ ?sC] exI [of _ nonce]) simp
qed




lemma mapped_root_hit:
  "root_map s (encoded_token L (filenameKey s) name) = Some name
     \<Longrightarrow> mapped_root L name s = with_root (root_map s) s"
  by (simp add: mapped_root_def)




section \<open>Empty files\<close>

lemma Read_sealed_empty:
  assumes "lib_ok L" and "length (masterKey s) = 32"
      and "bk_content (underlying s) tok = nonce @ gcm_Seal L (masterKey s) nonce []"
      and "length nonce = 12"
  shows "fst (EncryptedFile_Read L s (new_file name tok O_RDONLY) n) = ([], Some EOF)"
proof -
  from initializeReader_sealed [OF assms(1-4), of O_RDONLY name] obtain f'
    where i: "initializeReader L s (new_file name tok O_RDONLY) = (None, f')"
      and r: "ready (f'\<lparr>readInitialized := True\<rparr>) [] 0"
    by auto
  have "EncryptedFile_Read L s (new_file name tok O_RDONLY) n
          = EncryptedFile_Read L s (f'\<lparr>readInitialized := True\<rparr>) n"
    by (rule Read_uninitialized [OF i]) (simp_all add: new_file_def)
  then show ?thesis
    using Read_ready [OF r, of L s n] by auto
qed

lemma Read_no_envelope:
  assumes "length (masterKey s) = 32" and "bk_content (underlying s) tok = []"
  shows "fst (EncryptedFile_Read L s (new_file name tok O_RDONLY) n)
           = ([], Some (Wrap ''failed to initialize reader''
                         (Wrap ''failed to initialize decrypting reader''
                           (Wrap ''failed to read nonce'' EOF))))"
  using assms
  by (simp add: EncryptedFile_Read_def new_file_def initializeReader_def bfile_Seek0_def
                NewDecryptingReader_def aes_NewCipher_def DecryptingReader_Read_def
                DecryptingReader_initialize_def io_ReadFull_def NonceSize_def Let_def)

text \<open>
  The part of C7 that the code fulfils: a file closed after a \<open>Write\<close> of zero bytes is a
  28-byte envelope, and the first \<open>Read\<close> of it returns \<open>io.EOF\<close>.
\<close>

lemma zero_byte_write_round_trip:
  assumes "lib_ok L" and "mounted s" and "plain_name name" and "length name \<le> 102"
      and "root_map s (encoded_token L (filenameKey s) name) = None
           \<or> root_map s (encoded_token L (filenameKey s) name) = Some name"
      and "map_of (underlying s) (encoded_token L (filenameKey s) name) \<noteq> Some BDir"
  shows "\<exists>s1 s2 envelope. create_write_close (Suc n) L name [] s = (Inr (), s1)
           \<and> map_of (underlying s1) (encoded_token L (filenameKey s) name) = Some (BFile envelope)
           \<and> length envelope = 28
           \<and> decryptData L (masterKey s) envelope = Inr []
           \<and> open_read (Suc n) L name len_p s1 = (Inr ([], Some EOF), s2)"
proof -
  let ?tok = "encoded_token L (filenameKey s) name"
  from create_write_close_root [OF assms(1-6), where n = n and data = "[]"] obtain s1 nonce where
    c: "create_write_close (Suc n) L name [] s = (Inr (), s1)"
    and m: "mounted s1" and k: "masterKey s1 = masterKey s" "filenameKey s1 = filenameKey s"
    and r: "root_map s1 = (root_map s)(?tok \<mapsto> name)"
    and n: "length nonce = 12"
    and b: "map_of (underlying s1) ?tok = Some (BFile (nonce @ gcm_Seal L (masterKey s) nonce []))"
    by blast
  let ?env = "nonce @ gcm_Seal L (masterKey s) nonce []"
  have len: "length ?env = 28"
    using assms(1) n by (simp add: lib_ok_def)
  have dec: "decryptData L (masterKey s) ?env = Inr []"
    using assms(2) by (intro decryptData_sealed [OF assms(1) _ n]) (simp add: mounted_def)
  have mr: "mapped_root L name s1 = with_root (root_map s1) s1"
    using r k by (intro mapped_root_hit) simp
  have o: "Open (Suc n) L name s1 = (Inr (new_file name ?tok O_RDONLY), with_root (root_map s1) s1)"
    using Open_root [OF assms(1) m assms(3,4), where n = n and c = "?env"] r b k mr by simp
  have "fst (EncryptedFile_Read L (with_root (root_map s1) s1) (new_file name ?tok O_RDONLY) len_p)
          = ([], Some EOF)"
    using m b k
    by (intro Read_sealed_empty [OF assms(1) _ _ n]) (simp_all add: mounted_def bk_content_def)
  then have "open_read (Suc n) L name len_p s1 = (Inr ([], Some EOF), with_root (root_map s1) s1)"
    by (simp add: open_read_def o)
  with c b len dec show ?thesis by blast
qed

lemma created_and_closed_root:
  assumes "lib_ok L" and "mounted s" and "plain_name name" and "length name \<le> 102"
      and "root_map s (encoded_token L (filenameKey s) name) = None
           \<or> root_map s (encoded_token L (filenameKey s) name) = Some name"
      and "map_of (underlying s) (encoded_token L (filenameKey s) name) \<noteq> Some BDir"
  shows "\<exists>s1 s2. create_close (Suc n) L name s = (Inr (), s1)
           \<and> map_of (underlying s1) (encoded_token L (filenameKey s) name) = Some (BFile [])
           \<and> open_read (Suc n) L name len_p s1
               = (Inr ([], Some (Wrap ''failed to initialize reader''
                                 (Wrap ''failed to initialize decrypting reader''
                                   (Wrap ''failed to read nonce'' EOF)))), s2)"
proof -
  let ?tok = "encoded_token L (filenameKey s) name"
  let ?fl = "O_RDWR OR O_CREATE OR O_TRUNC"
  let ?s1 = "put_file ?tok [] (mapped_root L name s)"
  have c: "Create (Suc n) L name s = (Inr (new_file name ?tok ?fl), ?s1)"
    by (rule Create_root [OF assms])
  obtain f' where cl: "EncryptedFile_Close L (new_file name ?tok ?fl) ?s1 = ((None, f'), ?s1)"
    using Close_unwritten [of L name ?tok ?fl ?s1] by blast
  have cc: "create_close (Suc n) L name s = (Inr (), ?s1)"
    unfolding create_close_def by (simp only: c cl prod.case sum.case option.case)
  note tr = token_not_reserved [of L "filenameKey s" name]
  have m: "mounted ?s1"
    using tr by (intro mounted_put_file mounted_mapped_root assms(2)) simp_all
  have r: "root_map ?s1 ?tok = Some name"
    by (simp add: root_map_mapped_root)
  have mr: "mapped_root L name ?s1 = with_root (root_map ?s1) ?s1"
    using r by (intro mapped_root_hit) simp
  have o: "Open (Suc n) L name ?s1 = (Inr (new_file name ?tok O_RDONLY), with_root (root_map ?s1) ?s1)"
    using Open_root [OF assms(1) m assms(3,4), where n = n and c = "[]"] r mr by simp
  have "fst (EncryptedFile_Read L (with_root (root_map ?s1) ?s1) (new_file name ?tok O_RDONLY) len_p)
          = ([], Some (Wrap ''failed to initialize reader''
                         (Wrap ''failed to initialize decrypting reader''
                           (Wrap ''failed to read nonce'' EOF))))"
    using m by (intro Read_no_envelope) (simp_all add: mounted_def bk_content_def)
  then have "open_read (Suc n) L name len_p ?s1
               = (Inr ([], Some (Wrap ''failed to initialize reader''
                                 (Wrap ''failed to initialize decrypting reader''
                                   (Wrap ''failed to read nonce'' EOF)))),
                  with_root (root_map ?s1) ?s1)"
    by (simp add: open_read_def o)
  with cc show ?thesis
    by (intro exI [of _ ?s1] exI [of _ "with_root (root_map ?s1) ?s1"]) simp
qed

text \<open>
  C7, where the code departs from it. A file that is created and closed with no \<open>Write\<close>
  has no envelope: the backend file has zero bytes, and the first \<open>Read\<close> of it returns a
  wrapped error, which is not \<open>io.EOF\<close>.
\<close>

theorem file_closed_without_write_has_no_envelope:
  "\<exists>s1 s2. create_close 1 ref_lib ''empty.txt'' ref_volume = (Inr (), s1)
      \<and> map_of (underlying s1) (encoded_token ref_lib (filenameKey ref_volume) ''empty.txt'')
            = Some (BFile [])
      \<and> open_read 1 ref_lib ''empty.txt'' 1 s1
            = (Inr ([], Some (Wrap ''failed to initialize reader''
                              (Wrap ''failed to initialize decrypting reader''
                                (Wrap ''failed to read nonce'' EOF)))), s2)"
proof -
  have p: "plain_name ''empty.txt''" by (simp add: plain_name_def)
  have l: "length ''empty.txt'' \<le> 102" by simp
  have r: "root_map ref_volume (encoded_token ref_lib (filenameKey ref_volume) ''empty.txt'') = None
           \<or> root_map ref_volume (encoded_token ref_lib (filenameKey ref_volume) ''empty.txt'') = Some ''empty.txt''"
    by (simp add: root_map_ref_volume)
  have d: "map_of (underlying ref_volume) (encoded_token ref_lib (filenameKey ref_volume) ''empty.txt'')
             \<noteq> Some BDir"
    by (simp add: ref_volume_free)
  from created_and_closed_root [OF ref_lib_ok mounted_ref_volume p l r d, where n = 0 and len_p = 1]
  show ?thesis by (simp only: One_nat_def)
qed

section \<open>Obfuscation and deobfuscation through the filemap\<close>

lemma loadFilemap_success_cached:
  assumes "loadFilemap_with G L dir s = (Inr m, s')"
  shows "cache s' dir = Some m"
proof (cases "cache s dir")
  case (Some c)
  with assms show ?thesis by (auto simp: loadFilemap_with_def)
next
  case None
  obtain r s1 where g: "G dir s = (r, s1)" by (cases "G dir s")
  show ?thesis
    using assms None g
    by (cases r)
       (auto simp: loadFilemap_with_def bind_def wrapE_def Let_def
             split: sum.splits prod.splits option.splits if_splits)
qed

lemma saveFilemap_success_cached:
  assumes "saveFilemap_with G L dir m s = (Inr (), s')"
  shows "cache s' dir = Some m"
proof (cases "encryptData L (entropy s) (masterKey s) (json_Marshal L m)")
  case (Inl e)
  with assms show ?thesis by (simp add: saveFilemap_with_def)
next
  case (Inr p)
  obtain enc g' where p: "p = (enc, g')" by (cases p)
  obtain r s1 where g: "G dir (s\<lparr>entropy := g'\<rparr>) = (r, s1)" by (cases "G dir (s\<lparr>entropy := g'\<rparr>)")
  show ?thesis
    using assms Inr p g
    by (cases r)
       (auto simp: saveFilemap_with_def bind_def wrapE_def Let_def
             split: sum.splits prod.splits)
qed

lemma updateFilemap_success_cached:
  assumes "updateFilemap_with G L dir original obf s = (Inr (), s')"
  shows "\<exists>m. cache s' dir = Some m \<and> m obf = Some original"
proof -
  obtain r s1 where e: "ensureGrainFSDir_with G dir s = (r, s1)"
    by (cases "ensureGrainFSDir_with G dir s")
  obtain r2 s2 where l: "loadFilemap_with G L dir s1 = (r2, s2)"
    by (cases "loadFilemap_with G L dir s1")
  from assms e l obtain m s3 where "saveFilemap_with G L dir m s3 = (Inr (), s')" "m obf = Some original"
    by (cases r; cases r2)
       (auto simp: updateFilemap_with_def bind_def wrapE_def Let_def split: if_splits)
  then show ?thesis
    using saveFilemap_success_cached by blast
qed

lemma collision_loop_result:
  assumes "collision_loop k G L dir name obf final counter s = (Inr r, s')"
      and "final \<noteq> []" and "hd final = hd obf" and "obf \<noteq> []"
  shows "case r of
           Inl t \<Rightarrow> t \<noteq> [] \<and> hd t = hd obf \<and> (\<exists>m. cache s' dir = Some m \<and> m t = Some name)
         | Inr t \<Rightarrow> t \<noteq> [] \<and> hd t = hd obf"
  using assms
proof (induction k arbitrary: final counter s)
  case 0
  then show ?case by simp
next
  case (Suc k)
  obtain r1 s1 where l: "loadFilemap_with G L dir s = (r1, s1)"
    by (cases "loadFilemap_with G L dir s")
  show ?case
  proof (cases r1)
    case (Inl e)
    with Suc.prems l show ?thesis by simp
  next
    case (Inr m)
    note c = loadFilemap_success_cached [OF l [unfolded Inr]]
    show ?thesis
    proof (cases "m final")
      case None
      with Suc.prems l Inr show ?thesis by auto
    next
      case (Some existing)
      show ?thesis
      proof (cases "existing = name")
        case True
        with Suc.prems l Inr Some c show ?thesis by auto
      next
        case False
        with Suc.prems(1) l Inr Some
        have "collision_loop k G L dir name obf (obf @ ''.'' @ itoa counter) (counter + 1) s1 = (Inr r, s')"
          by (simp del: itoa.simps)
        moreover have "obf @ ''.'' @ itoa counter \<noteq> []" "hd (obf @ ''.'' @ itoa counter) = hd obf"
          using Suc.prems(4) by simp_all
        ultimately show ?thesis
          using Suc.prems(4) by (rule Suc.IH)
      qed
    qed
  qed
qed

lemma EncodeToString_head:
  "xs \<noteq> [] \<Longrightarrow> EncodeToString xs \<noteq> [] \<and> hd (EncodeToString xs) \<in> set encodeURL"
  by (cases xs rule: EncodeToString.cases) (simp_all add: Let_def b64char_in)

lemma obfuscateFilename_head:
  assumes "obfuscateFilename L key name = Inr t"
  shows "t \<noteq> [] \<and> hd t \<noteq> CHR ''.''"
proof -
  from assms have ne: "name \<noteq> []" by (auto simp: obfuscateFilename_def)
  from assms obtain iv mac ks where t: "t = EncodeToString (iv @ XORKeyStream ks (bytes_of name) @ mac)"
    by (auto simp: obfuscateFilename_def Let_def split: if_splits sum.splits)
  have "iv @ XORKeyStream ks (bytes_of name) @ mac \<noteq> []"
    using ne by (simp add: XORKeyStream_def bytes_of_def)
  from EncodeToString_head [OF this] show ?thesis
    using encodeURL_chars(2) unfolding t by auto
qed

lemma not_sidecar_by_head:
  assumes "t \<noteq> []" and "hd t \<noteq> CHR ''.''"
  shows "t \<noteq> GrainFSDir" and "\<not> HasPrefix t (GrainFSDir @ ''/'')"
proof -
  show "t \<noteq> GrainFSDir" using assms by (auto simp: GrainFSDir_def)
  show "\<not> HasPrefix t (GrainFSDir @ ''/'')"
  proof
    assume "HasPrefix t (GrainFSDir @ ''/'')"
    then have "take (length (GrainFSDir @ ''/'')) t = GrainFSDir @ ''/''" by (simp add: HasPrefix_def)
    then have "hd (take (length (GrainFSDir @ ''/'')) t) = CHR ''.''" by (simp add: GrainFSDir_def)
    then have "hd t = CHR ''.''" using assms(1) by (cases t) (simp_all add: GrainFSDir_def)
    with assms(2) show False by simp
  qed
qed

lemma obfuscate_with_result:
  assumes "GrainFS_obfuscateFilename_with k G L dir name s = (Inr t, s')"
  shows "name \<noteq> [] \<and>
         ((name = GrainFSDir \<or> HasPrefix name (GrainFSDir @ ''/'')) \<and> t = name
          \<or> t \<noteq> [] \<and> hd t \<noteq> CHR ''.'' \<and> (\<exists>m. cache s' dir = Some m \<and> m t = Some name))"
proof (cases "name = [] \<or> name = GrainFSDir \<or> HasPrefix name (GrainFSDir @ ''/'')")
  case True
  have "GrainFSDir \<noteq> []" by (simp add: GrainFSDir_def)
  with assms True show ?thesis
    by (cases "name = []"; cases "name = GrainFSDir")
       (simp_all add: GrainFS_obfuscateFilename_with_def)
next
  case False
  show ?thesis
  proof (cases "obfuscateFilename L (filenameKey s) name")
    case (Inl e)
    with assms False show ?thesis by (simp add: GrainFS_obfuscateFilename_with_def)
  next
    case (Inr obf)
    note h = obfuscateFilename_head [OF Inr]
    obtain r s1 where c: "collision_loop k G L dir name obf obf 1 s = (r, s1)"
      by (cases "collision_loop k G L dir name obf obf 1 s")
    show ?thesis
    proof (cases r)
      case (Inl e)
      with assms False Inr c show ?thesis by (simp add: GrainFS_obfuscateFilename_with_def)
    next
      case r: (Inr x)
      from collision_loop_result [OF c [unfolded r]] h
      have cr: "case x of
           Inl t \<Rightarrow> t \<noteq> [] \<and> hd t = hd obf \<and> (\<exists>m. cache s1 dir = Some m \<and> m t = Some name)
         | Inr t \<Rightarrow> t \<noteq> [] \<and> hd t = hd obf" by simp
      show ?thesis
      proof (cases x)
        case (Inl final)
        with assms False Inr c r cr h show ?thesis
          by (auto simp: GrainFS_obfuscateFilename_with_def)
      next
        case x: (Inr final)
        obtain r2 s2 where u: "updateFilemap_with G L dir name final s1 = (r2, s2)"
          by (cases "updateFilemap_with G L dir name final s1")
        from assms False Inr c r x u have "r2 = Inr ()" "s2 = s'" "t = final"
          by (auto simp: GrainFS_obfuscateFilename_with_def bind_def wrapE_def ret_def
                   split: sum.splits)
        with u updateFilemap_success_cached [of G L dir name final s1 s'] cr x h False
        show ?thesis by auto
      qed
    qed
  qed
qed

text \<open>
  C3. Whatever the directory, the name, the volume and the bounds: when \<open>obfuscateFilename\<close>
  returns a token, \<open>deobfuscateFilename\<close> of that token in the same directory, on the
  volume as \<open>obfuscateFilename\<close> left it, returns the name and changes nothing.
\<close>

theorem deobfuscate_inverts_obfuscate:
  assumes "GrainFS_obfuscateFilename n L dir name s = (Inr t, s')"
  shows "GrainFS_deobfuscateFilename n' L dir t s' = (Inr name, s')"
proof -
  from obfuscate_with_result [OF assms [unfolded GrainFS_obfuscateFilename_def]]
  have ne: "name \<noteq> []"
    and d: "(name = GrainFSDir \<or> HasPrefix name (GrainFSDir @ ''/'')) \<and> t = name
          \<or> t \<noteq> [] \<and> hd t \<noteq> CHR ''.'' \<and> (\<exists>m. cache s' dir = Some m \<and> m t = Some name)"
    by simp_all
  from d show ?thesis
  proof
    assume "(name = GrainFSDir \<or> HasPrefix name (GrainFSDir @ ''/'')) \<and> t = name"
    with ne show ?thesis
      by (cases "name = GrainFSDir") (simp_all add: GrainFS_deobfuscateFilename_def ret_def)
  next
    assume a: "t \<noteq> [] \<and> hd t \<noteq> CHR ''.'' \<and> (\<exists>m. cache s' dir = Some m \<and> m t = Some name)"
    then obtain m where m: "cache s' dir = Some m" "m t = Some name" by blast
    from a not_sidecar_by_head [of t] have ns: "t \<noteq> []" "t \<noteq> GrainFSDir" "\<not> HasPrefix t (GrainFSDir @ ''/'')"
      by simp_all
    show ?thesis
      using ns m
      by (simp add: GrainFS_deobfuscateFilename_def bind_def wrapE_def ret_def loadFilemap_def
                    loadFilemap_cached)
  qed
qed

theorem deobfuscate_inverts_obfuscate_witness:
  "\<exists>t s'. GrainFS_obfuscateFilename 1 ref_lib ''.'' ''a.txt'' ref_volume = (Inr t, s')
         \<and> GrainFS_deobfuscateFilename 1 ref_lib ''.'' t s' = (Inr ''a.txt'', s')"
proof -
  have p: "plain_name ''a.txt''" by (simp add: plain_name_def)
  have l: "length ''a.txt'' \<le> 102" by simp
  have r: "root_map ref_volume (encoded_token ref_lib (filenameKey ref_volume) ''a.txt'') = None
           \<or> root_map ref_volume (encoded_token ref_lib (filenameKey ref_volume) ''a.txt'') = Some ''a.txt''"
    by (simp add: root_map_ref_volume)
  note o = GrainFS_obfuscateFilename_root [OF ref_lib_ok mounted_ref_volume p l r, where n = 0,
              unfolded One_nat_def [symmetric]]
  from deobfuscate_inverts_obfuscate [OF o, where n' = 1] o show ?thesis by blast
qed

section \<open>Listing a directory\<close>

lemma deobfuscate_cached:
  assumes "cache s dir = Some m" and "t \<noteq> []" and "CHR ''/'' \<notin> set t"
  shows "GrainFS_deobfuscateFilename n L dir t s
           = (if t = GrainFSDir then Inr t
              else case m t of None \<Rightarrow> Inl (Errorf ''obfuscated filename not found in filemap'')
                             | Some original \<Rightarrow> Inr original, s)"
proof -
  have "\<not> HasPrefix t (GrainFSDir @ ''/'')"
  proof
    assume "HasPrefix t (GrainFSDir @ ''/'')"
    then have "set (GrainFSDir @ ''/'') \<subseteq> set t"
      unfolding HasPrefix_def using set_take_subset [of "length (GrainFSDir @ ''/'')" t] by simp
    with assms(3) show False by auto
  qed
  then show ?thesis
    using assms
    by (simp add: GrainFS_deobfuscateFilename_def bind_def wrapE_def ret_def throw_def
                  loadFilemap_def loadFilemap_cached split: option.splits)
qed

lemma listing_Cons:
  "listing m (info # infos)
     = (if fi_Name info = ''.grainfs'' then listing m infos
        else case m (fi_Name info) of
               None \<Rightarrow> listing m infos
             | Some original \<Rightarrow> \<lparr>fiw_FileInfo = info, fiw_originalName = original\<rparr> # listing m infos)"
  by (simp add: listing_def List.map_filter_simps split: option.splits)

lemma listing_Nil [simp]: "listing m [] = []"
  by (simp add: listing_def List.map_filter_simps)

lemma ReadDir_loop_cached:
  assumes "cache s path = Some m"
      and "\<forall>i \<in> set infos. fi_Name i \<noteq> [] \<and> CHR ''/'' \<notin> set (fi_Name i)"
  shows "ReadDir_loop infos n L path acc s = (acc @ listing m infos, s)"
  using assms(2)
proof (induction infos arbitrary: acc)
  case Nil
  then show ?case by simp
next
  case (Cons info infos)
  then have i: "fi_Name info \<noteq> []" "CHR ''/'' \<notin> set (fi_Name info)"
    and r: "\<forall>i \<in> set infos. fi_Name i \<noteq> [] \<and> CHR ''/'' \<notin> set (fi_Name i)"
    by simp_all
  note d = deobfuscate_cached [OF assms(1) i, of n L]
  show ?case
    by (cases "m (fi_Name info)")
       (simp_all add: d Cons.IH [OF r] listing_Cons GrainFSDir_def)
qed

lemma ReadDir_loop_loads:
  assumes "loadFilemap n L path s = (Inr m, s')"
      and "\<forall>i \<in> set infos. fi_Name i \<noteq> [] \<and> CHR ''/'' \<notin> set (fi_Name i)"
  shows "fst (ReadDir_loop infos n L path acc s) = acc @ listing m infos"
  using assms(2)
proof (induction infos arbitrary: acc)
  case Nil
  then show ?case by simp
next
  case (Cons info infos)
  then have i: "fi_Name info \<noteq> []" "CHR ''/'' \<notin> set (fi_Name info)"
    and r: "\<forall>i \<in> set infos. fi_Name i \<noteq> [] \<and> CHR ''/'' \<notin> set (fi_Name i)"
    by simp_all
  show ?case
  proof (cases "fi_Name info = GrainFSDir")
    case True
    then show ?thesis by (simp add: Cons.IH [OF r] listing_Cons GrainFSDir_def)
  next
    case False
    have ns: "\<not> HasPrefix (fi_Name info) (GrainFSDir @ ''/'')"
    proof
      assume "HasPrefix (fi_Name info) (GrainFSDir @ ''/'')"
      then have "set (GrainFSDir @ ''/'') \<subseteq> set (fi_Name info)"
        unfolding HasPrefix_def
        using set_take_subset [of "length (GrainFSDir @ ''/'')" "fi_Name info"] by simp
      with i(2) show False by auto
    qed
    have c: "cache s' path = Some m"
      using assms(1) unfolding loadFilemap_def by (rule loadFilemap_success_cached)
    have d: "GrainFS_deobfuscateFilename n L path (fi_Name info) s
               = (case m (fi_Name info) of
                    None \<Rightarrow> Inl (Errorf ''obfuscated filename not found in filemap'')
                  | Some original \<Rightarrow> Inr original, s')"
      using i(1) False ns assms(1)
      by (simp add: GrainFS_deobfuscateFilename_def bind_def wrapE_def ret_def throw_def
               split: option.splits)
    show ?thesis
      using False
      by (cases "m (fi_Name info)")
         (simp_all add: d ReadDir_loop_cached [OF c r] listing_Cons GrainFSDir_def)
  qed
qed

lemma ReadDir_loop_entries:
  "set (fst (ReadDir_loop infos n L path acc s))
     \<subseteq> set acc \<union> {w. fiw_FileInfo w \<in> set infos \<and> fi_Name (fiw_FileInfo w) \<noteq> GrainFSDir}"
proof (induction infos arbitrary: acc s)
  case Nil
  then show ?case by simp
next
  case (Cons info infos)
  obtain r s1 where d: "GrainFS_deobfuscateFilename n L path (fi_Name info) s = (r, s1)"
    by (cases "GrainFS_deobfuscateFilename n L path (fi_Name info) s")
  show ?case
  proof (cases "fi_Name info = GrainFSDir")
    case True
    then show ?thesis using Cons.IH [of acc s] by auto
  next
    case False
    show ?thesis
    proof (cases r)
      case (Inl e)
      then show ?thesis using False d Cons.IH [of acc s1] by auto
    next
      case (Inr original)
      then show ?thesis
        using False d Cons.IH [of "acc @ [\<lparr>fiw_FileInfo = info, fiw_originalName = original\<rparr>]" s1]
        by auto
    qed
  qed
qed

text \<open>
  C6. Once the path is translated and the backend has listed the directory, \<open>ReadDir\<close>
  returns a list and no error, whatever happens to the entries: every entry it returns
  wraps a backend entry that is not the sidecar \<open>.grainfs\<close>; and when the filemap of the
  directory loads and the backend's entry names are path elements, the result is the
  listing of the specification: the sidecar dropped, every other entry under the name
  the filemap gives its token, the entries without one dropped.
\<close>

theorem ReadDir_lists_through_filemap:
  assumes "getObfuscatedPath n L (if path = [] then ''.'' else path) s = (Inr obfuscatedPath, s1)"
      and "bk_ReadDir (underlying s1) obfuscatedPath = Inr infos"
  shows "\<exists>result s2. ReadDir n L path s = (Inr result, s2)
           \<and> (\<forall>w \<in> set result. fiw_FileInfo w \<in> set infos \<and> fi_Name (fiw_FileInfo w) \<noteq> ''.grainfs'')
           \<and> (\<forall>m s'. loadFilemap n L (if path = [] then ''.'' else path) s1 = (Inr m, s')
                       \<and> (\<forall>i \<in> set infos. fi_Name i \<noteq> [] \<and> CHR ''/'' \<notin> set (fi_Name i))
                   \<longrightarrow> result = listing m infos)"
proof -
  let ?path = "if path = [] then ''.'' else path"
  obtain result s2 where l: "ReadDir_loop infos n L ?path [] s1 = (result, s2)"
    by (cases "ReadDir_loop infos n L ?path [] s1")
  have r: "ReadDir n L path s = (Inr result, s2)"
    using assms l by (simp add: ReadDir_def bind_def wrapE_def Let_def)
  have e: "\<forall>w \<in> set result. fiw_FileInfo w \<in> set infos \<and> fi_Name (fiw_FileInfo w) \<noteq> ''.grainfs''"
    using ReadDir_loop_entries [of infos n L ?path "[]" s1] l by (auto simp: GrainFSDir_def)
  have "\<forall>m s'. loadFilemap n L ?path s1 = (Inr m, s')
                  \<and> (\<forall>i \<in> set infos. fi_Name i \<noteq> [] \<and> CHR ''/'' \<notin> set (fi_Name i))
              \<longrightarrow> result = listing m infos"
    using ReadDir_loop_loads [of n L ?path s1 _ _ infos "[]"] l by auto
  with r e show ?thesis by blast
qed

lemma sidecar_paths:
  "Dir ''.grainfs'' = ''.''" "Base ''.grainfs'' = ''.grainfs''"
  "Dir ''.grainfs/config.json'' = ''.grainfs''" "Dir ''.grainfs/filemap.json'' = ''.grainfs''"
  "Clean ''.'' = ''.''"
  by (simp_all add: Dir_def Base_def Clean_def Let_def)

lemma dotted_neq_token: "CHR ''.'' \<in> set x \<Longrightarrow> x \<noteq> encoded_token L k n"
  using token_chars(2) [of L k n] by auto

lemma underlying_after_create:
  assumes "lib_ok L"
  shows "\<exists>sealed. underlying (put_file (encoded_token L (filenameKey ref_volume) name) []
                       (saved_root L m ref_volume))
           = [(''.grainfs'', BDir), (''.grainfs/config.json'', BFile (replicate 32 7)),
              (''.grainfs/filemap.json'', BFile sealed),
              (encoded_token L (filenameKey ref_volume) name, BFile [])]"
  by (cases "rand_Read ref_rng NonceSize")
     (simp add: put_file_def saved_root_def ref_volume_def dotted_neq_token token_neq_dotted)

lemma bk_ReadDir_after_create:
  assumes "lib_ok L"
  shows "bk_ReadDir (underlying (put_file (encoded_token L (filenameKey ref_volume) name) []
                       (saved_root L m ref_volume))) ''.''
           = Inr [\<lparr>fi_Name = ''.grainfs'', fi_Size = 0, fi_IsDir = True\<rparr>,
                  \<lparr>fi_Name = encoded_token L (filenameKey ref_volume) name, fi_Size = 0, fi_IsDir = False\<rparr>]"
proof -
  from underlying_after_create [OF assms, of name m] obtain sealed where
    u: "underlying (put_file (encoded_token L (filenameKey ref_volume) name) []
                       (saved_root L m ref_volume))
           = [(''.grainfs'', BDir), (''.grainfs/config.json'', BFile (replicate 32 7)),
              (''.grainfs/filemap.json'', BFile sealed),
              (encoded_token L (filenameKey ref_volume) name, BFile [])]"
    by blast
  note t = plain_Dir_Base [OF token_plain [OF assms, of "filenameKey ref_volume" name]]
  show ?thesis
    unfolding u by (simp add: bk_ReadDir_def bk_get_def sidecar_paths t Let_def)
qed

theorem ReadDir_lists_through_filemap_witness:
  "\<exists>s2. ReadDir 1 ref_lib ''.'' (snd (Create 1 ref_lib ''a.txt'' ref_volume))
          = (Inr [\<lparr>fiw_FileInfo = \<lparr>fi_Name = encoded_token ref_lib (filenameKey ref_volume) ''a.txt'',
                                     fi_Size = 0, fi_IsDir = False\<rparr>,
                    fiw_originalName = ''a.txt''\<rparr>], s2)"
proof -
  let ?tok = "encoded_token ref_lib (filenameKey ref_volume) ''a.txt''"
  let ?m = "Map.empty(?tok \<mapsto> ''a.txt'')"
  let ?s0 = "put_file ?tok [] (saved_root ref_lib ?m ref_volume)"
  let ?infos = "[\<lparr>fi_Name = ''.grainfs'', fi_Size = 0, fi_IsDir = True\<rparr>,
                 \<lparr>fi_Name = ?tok, fi_Size = 0, fi_IsDir = False\<rparr>]"
  have p: "plain_name ''a.txt''" by (simp add: plain_name_def)
  have l: "length ''a.txt'' \<le> 102" by simp
  have r: "root_map ref_volume ?tok = None \<or> root_map ref_volume ?tok = Some ''a.txt''"
    by (simp add: root_map_ref_volume)
  have d: "map_of (underlying ref_volume) ?tok \<noteq> Some BDir"
    by (simp add: ref_volume_free)
  have mr: "mapped_root ref_lib ''a.txt'' ref_volume = saved_root ref_lib ?m ref_volume"
    by (simp add: mapped_root_def root_map_ref_volume)
  have c: "snd (Create 1 ref_lib ''a.txt'' ref_volume) = ?s0"
    using Create_root [OF ref_lib_ok mounted_ref_volume p l r d, where n = 0] mr by simp
  have g: "getObfuscatedPath 1 ref_lib (if ''.'' = [] then ''.'' else ''.'') ?s0 = (Inr ''.'', ?s0)"
    by (simp add: G_root ret_def del: getObfuscatedPath.simps)
  have b: "bk_ReadDir (underlying ?s0) ''.'' = Inr ?infos"
    by (rule bk_ReadDir_after_create [OF ref_lib_ok])
  have ch: "cache ?s0 ''.'' = Some ?m"
    by (simp add: saved_root_def split: prod.splits)
  have lf: "loadFilemap 1 ref_lib (if ''.'' = [] then ''.'' else ''.'') ?s0 = (Inr ?m, ?s0)"
    using ch by (simp add: loadFilemap_def loadFilemap_cached)
  have names: "\<forall>i \<in> set ?infos. fi_Name i \<noteq> [] \<and> CHR ''/'' \<notin> set (fi_Name i)"
    using token_chars(1) [of ref_lib "filenameKey ref_volume" "''a.txt''"]
          token_nonempty [OF ref_lib_ok, of "filenameKey ref_volume" "''a.txt''"]
    by simp
  from ReadDir_lists_through_filemap [OF g b] obtain result s2 where
    rd: "ReadDir 1 ref_lib ''.'' ?s0 = (Inr result, s2)"
    and sp: "\<forall>m s'. loadFilemap 1 ref_lib (if ''.'' = [] then ''.'' else ''.'') ?s0 = (Inr m, s')
                       \<and> (\<forall>i \<in> set ?infos. fi_Name i \<noteq> [] \<and> CHR ''/'' \<notin> set (fi_Name i))
                   \<longrightarrow> result = listing m ?infos"
    by blast
  from sp lf names have "result = listing ?m ?infos" by blast
  also have "\<dots> = [\<lparr>fiw_FileInfo = \<lparr>fi_Name = ?tok, fi_Size = 0, fi_IsDir = False\<rparr>,
                      fiw_originalName = ''a.txt''\<rparr>]"
    using token_neq_dotted [of "''.grainfs''" ref_lib "filenameKey ref_volume" "''a.txt''"]
    by (simp add: listing_Cons)
  finally show ?thesis using rd c by auto
qed

section \<open>Mounting and the derived keys\<close>

lemma configPath: "Join [GrainFSDir, ConfigFile] = ''.grainfs/config.json''"
  by (simp add: Join_def GrainFSDir_def ConfigFile_def Clean_def Let_def)

lemma Clean_configPath: "Clean ''.grainfs/config.json'' = ''.grainfs/config.json''"
  by (simp add: Clean_def Let_def)

lemma loadConfig_present:
  assumes "map_of (underlying fs) ''.grainfs/config.json'' = Some (BFile c)"
      and "json_Decode L c = Some cfg" and "length (Salt cfg) = SaltSize" and "0 < Iterations cfg"
  shows "loadConfig (Suc n) L fs = (Inr cfg, fs)"
proof -
  have o: "bk_Open (underlying fs) ''.grainfs/config.json''
             = Inr (\<lparr>bname = ''.grainfs/config.json'', bpos = 0, bclosed = False\<rparr>, underlying fs)"
    using assms(1) by (simp add: bk_Open_def bk_OpenFile_def bk_get_def Clean_configPath Let_def)
  have r: "io_ReadAll (underlying fs) \<lparr>bname = ''.grainfs/config.json'', bpos = 0, bclosed = False\<rparr>
             = (Inr c, \<lparr>bname = ''.grainfs/config.json'', bpos = length c, bclosed = False\<rparr>)"
    using assms(1) by (simp add: io_ReadAll_def bk_content_def Let_def)
  show ?thesis
    using assms(2,3,4) by (simp add: configPath o r Let_def)
qed

lemma New_present:
  assumes "map_of bk ''.grainfs/config.json'' = Some (BFile c)"
      and "json_Decode L c = Some cfg" and "length (Salt cfg) = SaltSize" and "0 < Iterations cfg"
      and "password \<noteq> []"
  shows "New (Suc n) L bk g password
           = (Inr (), \<lparr>underlying = bk,
                       masterKey = fst (deriveKeys L password (Salt cfg) (Iterations cfg)),
                       filenameKey = snd (deriveKeys L password (Salt cfg) (Iterations cfg)),
                       rootPath = ''.'', cache = Map.empty, entropy = g\<rparr>)"
proof -
  let ?fs = "\<lparr>underlying = bk, masterKey = [], filenameKey = [], rootPath = ''.'',
              cache = Map.empty, entropy = g\<rparr>"
  have "loadConfig (Suc n) L ?fs = (Inr cfg, ?fs)"
    using assms(1-4) by (intro loadConfig_present [where c = c]) simp_all
  then show ?thesis
    using assms(5)
    by (simp add: New_def Let_def split: prod.splits del: loadConfig.simps)
qed

text \<open>
  C2. Over a backend that holds a valid configuration, mounting with a password, then
  mounting with the same password over the backend as the first mount left it, succeeds
  both times with the same master key and the same filename key, whatever the state of
  the random source; they are \<open>deriveKeys\<close> of the password and the salt and iteration
  count of the configuration, and the first mount leaves the backend as it was.
\<close>

theorem remount_derives_same_keys:
  assumes "map_of bk ''.grainfs/config.json'' = Some (BFile c)"
      and "json_Decode L c = Some cfg" and "length (Salt cfg) = SaltSize" and "0 < Iterations cfg"
      and "password \<noteq> []"
  shows "\<exists>fs1 fs2. New (Suc n1) L bk g1 password = (Inr (), fs1)
           \<and> New (Suc n2) L (underlying fs1) g2 password = (Inr (), fs2)
           \<and> masterKey fs2 = masterKey fs1 \<and> filenameKey fs2 = filenameKey fs1
           \<and> (masterKey fs1, filenameKey fs1) = deriveKeys L password (Salt cfg) (Iterations cfg)
           \<and> underlying fs1 = bk"
proof -
  note 1 = New_present [OF assms, of n1 g1]
  note 2 = New_present [OF assms, of n2 g2]
  show ?thesis
    unfolding 1 by (intro exI conjI, rule refl, simp, rule 2) simp_all
qed

theorem remount_derives_same_keys_witness:
  "\<exists>fs1 fs2. New 1 ref_lib (underlying ref_volume) ref_rng ''p'' = (Inr (), fs1)
           \<and> New 1 ref_lib (underlying fs1) (ref_rng\<lparr>rng_pos := 5\<rparr>) ''p'' = (Inr (), fs2)
           \<and> masterKey fs2 = masterKey fs1 \<and> filenameKey fs2 = filenameKey fs1"
proof -
  have c: "map_of (underlying ref_volume) ''.grainfs/config.json'' = Some (BFile (replicate 32 7))"
    by (simp add: ref_volume_def)
  have d: "json_Decode ref_lib (replicate 32 7)
             = Some \<lparr>Salt = replicate 32 7, Iterations = 100000, Version = ''1.0.0''\<rparr>"
    by (simp add: ref_lib_def)
  have s: "length (Salt \<lparr>Salt = replicate 32 (7::byte), Iterations = 100000, Version = ''1.0.0''\<rparr>) = SaltSize"
    by (simp add: SaltSize_def)
  have i: "0 < Iterations \<lparr>Salt = replicate 32 (7::byte), Iterations = 100000, Version = ''1.0.0''\<rparr>"
    by simp
  have p: "''p'' \<noteq> []" by simp
  from remount_derives_same_keys [OF c d s i p, where ?n1.0 = 0 and ?n2.0 = 0 and ?g1.0 = ref_rng
                                   and ?g2.0 = "ref_rng\<lparr>rng_pos := 5\<rparr>"]
  show ?thesis unfolding One_nat_def by blast
qed

end
